theory Spec2Isabelle
  imports Complex_Main "HOL-Library.Multiset"
begin

section \<open>JavaScript values\<close>

text \<open>
  The viewer's data pipeline (src/App.jsx, src/components/utils/DataProcessor.jsx) is
  plain JavaScript over numbers, strings and arrays.  Its control flow depends on the
  special numbers: a failed parse is \<open>NaN\<close>, a division by zero is an infinity whose sign
  depends on the sign of the zero, and \<open>-0\<close> is produced by \<open>toFixed\<close> on small negative
  numbers.  A number is therefore one of the five shapes below; \<open>Fin 0\<close> is \<open>+0\<close> and
  \<open>NZero\<close> is \<open>-0\<close>.  Arithmetic on finite numbers is exact arithmetic on the reals:
  rounding, overflow and underflow of IEEE doubles are not part of the model.
\<close>

datatype jsnum = NaN | NInf | NZero | Fin real | PInf

fun isZero :: "jsnum \<Rightarrow> bool" where
  "isZero NZero = True"
| "isZero (Fin x) = (x = 0)"
| "isZero _ = False"

fun isInf :: "jsnum \<Rightarrow> bool" where
  "isInf PInf = True"
| "isInf NInf = True"
| "isInf _ = False"

fun isFiniteNum :: "jsnum \<Rightarrow> bool" where
  "isFiniteNum NZero = True"
| "isFiniteNum (Fin x) = True"
| "isFiniteNum _ = False"

fun signBit :: "jsnum \<Rightarrow> bool" where
  "signBit NInf = True"
| "signBit NZero = True"
| "signBit (Fin x) = (x < 0)"
| "signBit _ = False"

fun realOf :: "jsnum \<Rightarrow> real" where
  "realOf (Fin x) = x"
| "realOf _ = 0"

definition isNaN :: "jsnum \<Rightarrow> bool" where
  "isNaN n = (n = NaN)"

fun js_neg :: "jsnum \<Rightarrow> jsnum" where
  "js_neg NaN = NaN"
| "js_neg PInf = NInf"
| "js_neg NInf = PInf"
| "js_neg NZero = Fin 0"
| "js_neg (Fin x) = (if x = 0 then NZero else Fin (- x))"

fun js_add :: "jsnum \<Rightarrow> jsnum \<Rightarrow> jsnum" where
  "js_add NaN b = NaN"
| "js_add a NaN = NaN"
| "js_add PInf NInf = NaN"
| "js_add NInf PInf = NaN"
| "js_add PInf b = PInf"
| "js_add a PInf = PInf"
| "js_add NInf b = NInf"
| "js_add a NInf = NInf"
| "js_add NZero b = b"
| "js_add a NZero = a"
| "js_add (Fin x) (Fin y) = Fin (x + y)"

definition js_sub :: "jsnum \<Rightarrow> jsnum \<Rightarrow> jsnum" where
  "js_sub a b = js_add a (js_neg b)"

definition signedInf :: "bool \<Rightarrow> jsnum" where
  "signedInf negative = (if negative then NInf else PInf)"

definition signedZero :: "bool \<Rightarrow> jsnum" where
  "signedZero negative = (if negative then NZero else Fin 0)"

definition js_mul :: "jsnum \<Rightarrow> jsnum \<Rightarrow> jsnum" where
  "js_mul a b =
     (if a = NaN \<or> b = NaN then NaN
      else if (isInf a \<and> isZero b) \<or> (isZero a \<and> isInf b) then NaN
      else if isInf a \<or> isInf b then signedInf (signBit a \<noteq> signBit b)
      else if isZero a \<or> isZero b then signedZero (signBit a \<noteq> signBit b)
      else Fin (realOf a * realOf b))"

definition js_div :: "jsnum \<Rightarrow> jsnum \<Rightarrow> jsnum" where
  "js_div a b =
     (if a = NaN \<or> b = NaN then NaN
      else if (isInf a \<and> isInf b) \<or> (isZero a \<and> isZero b) then NaN
      else if isInf a \<or> isZero b then signedInf (signBit a \<noteq> signBit b)
      else if isInf b \<or> isZero a then signedZero (signBit a \<noteq> signBit b)
      else Fin (realOf a / realOf b))"

fun js_lt :: "jsnum \<Rightarrow> jsnum \<Rightarrow> bool" where
  "js_lt NaN b = False"
| "js_lt a NaN = False"
| "js_lt a NInf = False"
| "js_lt NInf b = True"
| "js_lt PInf b = False"
| "js_lt a PInf = True"
| "js_lt a b = (realOf a < realOf b)"

definition js_gt :: "jsnum \<Rightarrow> jsnum \<Rightarrow> bool" where
  "js_gt a b = js_lt b a"

definition js_le :: "jsnum \<Rightarrow> jsnum \<Rightarrow> bool" where
  "js_le a b = (a \<noteq> NaN \<and> b \<noteq> NaN \<and> \<not> js_lt b a)"

definition js_ge :: "jsnum \<Rightarrow> jsnum \<Rightarrow> bool" where
  "js_ge a b = js_le b a"

text \<open>A number of the array length kind: a non-negative integer.\<close>

definition numOfNat :: "nat \<Rightarrow> jsnum" where
  "numOfNat n = Fin (real n)"

text \<open>
  The primitive values a cell, an array element or a state variable can hold.  Cells of a
  parsed CSV file are strings; a column missing from a row reads as \<open>undefined\<close>.
\<close>

datatype jsval = JUndefined | JNull | JBool bool | JNum jsnum | JStr string

text \<open>
  What the language leaves to the host, or what is a grammar of its own, is a parameter:
  the value of a non-blank string as a number (\<open>Number(s)\<close>), the longest numeric prefix
  (\<open>parseFloat(s)\<close>), the date a string denotes (\<open>Date.parse\<close>, engine-specific outside
  the ISO format) and the wall clock.  Every theorem below holds for every host.
\<close>

datatype date = InvalidDate | ValidDate int

record host =
  stringToNumber :: "string \<Rightarrow> jsnum"
  parseFloatString :: "string \<Rightarrow> jsnum"
  dateParse :: "string \<Rightarrow> date"
  currentTime :: int

definition asciiWhiteSpace :: "char \<Rightarrow> bool" where
  "asciiWhiteSpace c = (c \<in> set [CHR 0x09, CHR 0x0A, CHR 0x0B, CHR 0x0C, CHR 0x0D, CHR '' ''])"

text \<open>
  \<open>Number(v)\<close>: \<open>undefined\<close> is \<open>NaN\<close>, \<open>null\<close> and \<open>false\<close> are \<open>0\<close>, \<open>true\<close> is \<open>1\<close>; a
  string that is empty or only white space is \<open>0\<close>, any other string is read by the host.
\<close>

fun Number :: "host \<Rightarrow> jsval \<Rightarrow> jsnum" where
  "Number h JUndefined = NaN"
| "Number h JNull = Fin 0"
| "Number h (JBool b) = (if b then Fin 1 else Fin 0)"
| "Number h (JNum n) = n"
| "Number h (JStr s) = (if list_all asciiWhiteSpace s then Fin 0 else stringToNumber h s)"

text \<open>
  \<open>parseFloat(v)\<close> converts its argument to a string first: \<open>undefined\<close>, \<open>null\<close>, \<open>true\<close>
  and \<open>false\<close> have no numeric prefix; a number prints and reads back as itself, except
  that \<open>-0\<close> prints as \<open>0\<close>.
\<close>

fun parseFloat :: "host \<Rightarrow> jsval \<Rightarrow> jsnum" where
  "parseFloat h JUndefined = NaN"
| "parseFloat h JNull = NaN"
| "parseFloat h (JBool b) = NaN"
| "parseFloat h (JNum n) = (if n = NZero then Fin 0 else n)"
| "parseFloat h (JStr s) = parseFloatString h s"

fun truthy :: "jsval \<Rightarrow> bool" where
  "truthy JUndefined = False"
| "truthy JNull = False"
| "truthy (JBool b) = b"
| "truthy (JNum n) = (\<not> isNaN n \<and> \<not> isZero n)"
| "truthy (JStr s) = (s \<noteq> [])"

text \<open>
  \<open>Math.min(...xs)\<close> and \<open>Math.max(...xs)\<close>: \<open>NaN\<close> if any argument is, \<open>Infinity\<close> and
  \<open>-Infinity\<close> for no argument, and \<open>-0\<close> below \<open>+0\<close>.
\<close>

definition js_min2 :: "jsnum \<Rightarrow> jsnum \<Rightarrow> jsnum" where
  "js_min2 a b =
     (if a = NaN \<or> b = NaN then NaN
      else if js_lt a b then a
      else if js_lt b a then b
      else if a = NZero \<or> b = NZero then NZero
      else a)"

definition js_max2 :: "jsnum \<Rightarrow> jsnum \<Rightarrow> jsnum" where
  "js_max2 a b =
     (if a = NaN \<or> b = NaN then NaN
      else if js_lt a b then b
      else if js_lt b a then a
      else if a = NZero then b
      else a)"

definition Math_min :: "jsnum list \<Rightarrow> jsnum" where
  "Math_min xs = foldl js_min2 PInf xs"

definition Math_max :: "jsnum list \<Rightarrow> jsnum" where
  "Math_max xs = foldl js_max2 NInf xs"

definition Math_sqrt :: "jsnum \<Rightarrow> jsnum" where
  "Math_sqrt a =
     (case a of
        NaN \<Rightarrow> NaN
      | NInf \<Rightarrow> NaN
      | NZero \<Rightarrow> NZero
      | PInf \<Rightarrow> PInf
      | Fin x \<Rightarrow> if x < 0 then NaN else Fin (sqrt x))"

text \<open>\<open>Math.pow(a, 2)\<close> is the product of \<open>a\<close> with itself, also on the special numbers.\<close>

definition Math_pow2 :: "jsnum \<Rightarrow> jsnum" where
  "Math_pow2 a = js_mul a a"

subsection \<open>Dates\<close>

text \<open>
  A \<open>Date\<close> object holds a time value: an integer number of milliseconds since the epoch,
  or \<open>NaN\<close> (an invalid date).  \<open>new Date(number)\<close> clips: a time value beyond
  \<open>8.64e15\<close> in magnitude is invalid, any other is truncated towards zero.
\<close>

fun getTime :: "date \<Rightarrow> jsnum" where
  "getTime InvalidDate = NaN"
| "getTime (ValidDate t) = Fin (of_int t)"

definition toInteger :: "real \<Rightarrow> int" where
  "toInteger x = (if 0 \<le> x then \<lfloor>x\<rfloor> else \<lceil>x\<rceil>)"

fun newDateNum :: "jsnum \<Rightarrow> date" where
  "newDateNum NaN = InvalidDate"
| "newDateNum PInf = InvalidDate"
| "newDateNum NInf = InvalidDate"
| "newDateNum NZero = ValidDate 0"
| "newDateNum (Fin x) = (if \<bar>x\<bar> > 8640000000000000 then InvalidDate else ValidDate (toInteger x))"

text \<open>\<open>new Date(v)\<close>: a string is parsed by the host, any other value is its \<open>Number\<close>.\<close>

fun newDate :: "host \<Rightarrow> jsval \<Rightarrow> date" where
  "newDate h (JStr s) = dateParse h s"
| "newDate h v = newDateNum (Number h v)"

text \<open>\<open>new Date()\<close>: the wall clock.\<close>

definition newDateNow :: "host \<Rightarrow> date" where
  "newDateNow h = ValidDate (currentTime h)"

section \<open>Smoothing\<close>

text \<open>\<open>arr.slice(start, end)\<close> for non-negative integer arguments.\<close>

definition js_slice :: "'a list \<Rightarrow> nat \<Rightarrow> nat \<Rightarrow> 'a list" where
  "js_slice arr start end = take (end - start) (drop start arr)"

text \<open>
  \<open>movingAverage\<close>, App.jsx lines 8-15 and DataProcessor.jsx lines 6-13.  The window
  size is the integer of the range input (\<open>parseInt\<close> of the slider value); the sum is
  \<open>reduce((sum, val) => sum + val, 0)\<close>.
\<close>

definition movingAverage :: "jsnum list \<Rightarrow> int \<Rightarrow> jsnum list" where
  "movingAverage data windowSize =
     map (\<lambda>idx.
       let start = nat (max 0 (int idx - windowSize + 1));
           slice = js_slice data start (idx + 1);
           avg = js_div (foldl js_add (Fin 0) slice) (numOfNat (length slice))
       in avg) [0..<length data]"

text \<open>
  \<open>timeBasedMovingAverage\<close>, App.jsx lines 17-32 and DataProcessor.jsx lines 15-26.  A
  data point is \<open>{timestamp: Date, value: v}\<close>; at the one call site (App.jsx line 704)
  \<open>v\<close> is \<open>finalYValues[idx]\<close>: a number, or \<open>undefined\<close> when the index is beyond the end
  of that array (\<open>None\<close> here).  \<open>sum + undefined\<close> is \<open>NaN\<close>.  The field \<open>value\<close> is
  written \<open>val\<close>.
\<close>

record point =
  timestamp :: date
  val :: "jsnum option"

definition plusValue :: "jsnum \<Rightarrow> jsnum option \<Rightarrow> jsnum" where
  "plusValue acc v = (case v of None \<Rightarrow> NaN | Some n \<Rightarrow> js_add acc n)"

definition hoursToMs :: "jsnum \<Rightarrow> jsnum" where
  "hoursToMs hoursWindow = js_mul (js_mul (js_mul hoursWindow (Fin 60)) (Fin 60)) (Fin 1000)"

definition timeBasedMovingAverage :: "point list \<Rightarrow> jsnum \<Rightarrow> jsnum option list" where
  "timeBasedMovingAverage dataPoints hoursWindow =
     map (\<lambda>idx.
       let point = dataPoints ! idx;
           currentTime = getTime (timestamp point);
           windowStart = js_sub currentTime (hoursToMs hoursWindow);
           windowPoints = map snd (filter (\<lambda>(pIdx, p).
               pIdx \<le> idx \<and> js_ge (getTime (timestamp p)) windowStart) (enumerate 0 dataPoints))
       in if length windowPoints = 0 then val point
          else Some (js_div (foldl (\<lambda>acc p. plusValue acc (val p)) (Fin 0) windowPoints)
                       (numOfNat (length windowPoints))))
       [0..<length dataPoints]"

section \<open>Zero-baselining: \<open>makeRelativeToZero\<close>\<close>

text \<open>
  App.jsx lines 35-56 and DataProcessor.jsx lines 28-43 (the same text).  The \<open>for\<close>
  loop returns the first element whose \<open>Number\<close> is not \<open>NaN\<close>; \<open>None\<close> is the
  \<open>null\<close> left in \<open>firstValidValue\<close> when there is none.  The argument is an array at
  every call site (a falsy argument would be returned as it is).
\<close>

fun firstValidValue :: "host \<Rightarrow> jsval list \<Rightarrow> jsnum option" where
  "firstValidValue h [] = None"
| "firstValidValue h (v # vs) =
     (if \<not> isNaN (Number h v) then Some (Number h v) else firstValidValue h vs)"

definition makeRelativeToZero :: "host \<Rightarrow> jsval list \<Rightarrow> jsval list" where
  "makeRelativeToZero h values =
     (if length values = 0 then values
      else case firstValidValue h values of
        None \<Rightarrow> values
      | Some first \<Rightarrow>
          map (\<lambda>val. if isNaN (Number h val) then val else JNum (js_sub (Number h val) first))
            values)"

section \<open>Timestamp normalisation: \<open>convertTimestamp\<close>\<close>

text \<open>
  App.jsx lines 317-345.  \<open>gpsEpoch\<close> is \<open>new Date('1980-01-06T00:00:00Z').getTime()\<close>,
  a date in the ISO format every engine reads alike: 3657 days after 1970-01-01.  The
  argument \<open>timestamp\<close> is written \<open>ts\<close>.
\<close>

definition gpsEpoch :: jsnum where
  "gpsEpoch = Fin 315964800000"

definition isString :: "jsval \<Rightarrow> bool" where
  "isString v = (case v of JStr s \<Rightarrow> True | _ \<Rightarrow> False)"

definition convertTimestamp :: "host \<Rightarrow> jsval \<Rightarrow> date" where
  "convertTimestamp h ts =
     (if \<not> truthy ts then newDateNow h
      else if isString ts \<and> \<not> isNaN (getTime (newDate h ts))
        then newDate h ts
      else
        let num = parseFloat h ts in
        if isNaN num then
          (let dateFromString = newDate h ts in
           if \<not> isNaN (getTime dateFromString) then dateFromString else newDateNow h)
        else if js_lt num (Fin 1000000000) then
          newDateNum (js_add gpsEpoch (js_mul num (Fin 1000)))
        else if js_lt num (Fin 10000000000) then
          newDateNum (js_mul num (Fin 1000))
        else newDateNum num)"

section \<open>Trace assembly: \<open>chartData\<close>\<close>

text \<open>
  A row of the parsed file maps column names to cells.  The parser is run with
  \<open>header: true\<close> and without dynamic typing, so every cell is a string; a column the
  row does not have reads as \<open>undefined\<close>.
\<close>

type_synonym row = "(string \<times> string) list"

definition getCell :: "row \<Rightarrow> string \<Rightarrow> jsval" where
  "getCell r col = (case map_of r col of None \<Rightarrow> JUndefined | Some s \<Rightarrow> JStr s)"

text \<open>The chart types (\<open>CHART_TYPES\<close>, App.jsx lines 197-204) and the palette (206-213).\<close>

definition CHART_LINE :: string where "CHART_LINE = ''line''"
definition CHART_SCATTER :: string where "CHART_SCATTER = ''scatter''"
definition CHART_BAR :: string where "CHART_BAR = ''bar''"
definition CHART_HISTOGRAM :: string where "CHART_HISTOGRAM = ''histogram''"
definition CHART_BOX :: string where "CHART_BOX = ''box''"
definition CHART_DUAL_AXIS :: string where "CHART_DUAL_AXIS = ''dual_axis''"

definition COLOR_PALETTE :: "string list" where
  "COLOR_PALETTE =
    [''#038357'', ''#FF6B6B'', ''#4ECDC4'', ''#45B7D1'', ''#96CEB4'', ''#FFEAA7'',
     ''#DDA0DD'', ''#98D8C8'', ''#F7DC6F'', ''#BB8FCE'', ''#85C1E9'',
     ''#FF8A80'', ''#80CBC4'', ''#81C784'', ''#FFB74D'', ''#F06292'',
     ''#9575CD'', ''#64B5F6'', ''#4DB6AC'', ''#AED581'', ''#FFD54F'',
     ''#A1887F'', ''#90A4AE'', ''#EF5350'', ''#26A69A'', ''#66BB6A'',
     ''#FFA726'', ''#EC407A'', ''#AB47BC'', ''#42A5F5'', ''#26C6DA'']"

definition paletteColor :: "nat \<Rightarrow> string" where
  "paletteColor colorIndex = COLOR_PALETTE ! (colorIndex mod length COLOR_PALETTE)"

text \<open>The state the memoised computation reads (App.jsx lines 219-227, 237).\<close>

record config =
  selectedX :: string
  selectedY :: string
  selectedY2 :: string
  chartType :: string
  showSmooth :: bool
  smoothingWindow :: int
  smoothingType :: string
  smoothingHours :: int
  relativeToZero :: bool
  dataColumns :: "string list"

text \<open>A trace as handed to the plotting library.\<close>

record line =
  line_color :: string
  line_width :: "nat option"
  line_dash :: "string option"

record marker =
  marker_color :: string
  marker_symbol :: "string option"

record trace =
  trace_x :: "date list"
  trace_y :: "jsval list"
  trace_type :: string
  trace_mode :: string
  trace_name :: string
  trace_line :: line
  trace_marker :: "marker option"
  trace_yaxis :: "string option"
  trace_opacity :: "real option"

subsection \<open>The grouping column\<close>

text \<open>
  \<open>toLowerCase\<close> on the letters A to Z.  No character outside them has a lower case that
  contains a letter of the four words searched for next to another such letter, so the
  search below sees what the code sees.
\<close>

definition lowerCaseOf :: "char \<Rightarrow> char" where
  "lowerCaseOf c =
     (case map_of (zip ''ABCDEFGHIJKLMNOPQRSTUVWXYZ'' ''abcdefghijklmnopqrstuvwxyz'') c of
        None \<Rightarrow> c
      | Some l \<Rightarrow> l)"

definition toLowerCase :: "string \<Rightarrow> string" where
  "toLowerCase s = map lowerCaseOf s"

fun includesText :: "string \<Rightarrow> string \<Rightarrow> bool" where
  "includesText [] sub = (sub = [])"
| "includesText (c # cs) sub = (take (length sub) (c # cs) = sub \<or> includesText cs sub)"

definition groupingColumnOf :: "string list \<Rightarrow> string option" where
  "groupingColumnOf columns =
     find (\<lambda>col.
       includesText (toLowerCase col) ''point'' \<or>
       includesText (toLowerCase col) ''name'' \<or>
       includesText (toLowerCase col) ''id'' \<or>
       includesText (toLowerCase col) ''station'') columns"

subsection \<open>Grouping rows in an object\<close>

text \<open>
  \<open>groupedData\<close> is an object literal \<open>{}\<close> used as a dictionary from the cell of the
  grouping column to an array of rows.  A key is a string (\<open>undefined\<close> becomes the key
  \<open>undefined\<close>).  The test \<open>!groupedData[groupKey]\<close> also sees what the object inherits
  from \<open>Object.prototype\<close>: for such a key no array is created and \<open>push\<close> is called on
  a value that has none, which throws.
\<close>

datatype error = TypeError

definition prototypeKeys :: "string list" where
  "prototypeKeys =
    [''constructor'', ''__defineGetter__'', ''__defineSetter__'', ''hasOwnProperty'',
     ''__lookupGetter__'', ''__lookupSetter__'', ''isPrototypeOf'', ''propertyIsEnumerable'',
     ''toString'', ''valueOf'', ''__proto__'', ''toLocaleString'']"

definition cellKey :: "row \<Rightarrow> string \<Rightarrow> string" where
  "cellKey r col = (case map_of r col of None \<Rightarrow> ''undefined'' | Some s \<Rightarrow> s)"

fun pushRow :: "string \<Rightarrow> row \<Rightarrow> (string \<times> row list) list \<Rightarrow> (string \<times> row list) list" where
  "pushRow k r [] = []"
| "pushRow k r ((k', rs) # groups) =
     (if k' = k then (k', rs @ [r]) # groups else (k', rs) # pushRow k r groups)"

definition addRow :: "string \<Rightarrow> (string \<times> row list) list \<Rightarrow> row \<Rightarrow> error + (string \<times> row list) list" where
  "addRow groupingColumn groupedData r =
     (let groupKey = cellKey r groupingColumn in
      case map_of groupedData groupKey of
        Some rs \<Rightarrow> Inr (pushRow groupKey r groupedData)
      | None \<Rightarrow>
          if groupKey \<in> set prototypeKeys then Inl TypeError
          else Inr (groupedData @ [(groupKey, [r])]))"

fun groupRows :: "string \<Rightarrow> (string \<times> row list) list \<Rightarrow> row list \<Rightarrow> error + (string \<times> row list) list" where
  "groupRows groupingColumn groupedData [] = Inr groupedData"
| "groupRows groupingColumn groupedData (r # rs) =
     (case addRow groupingColumn groupedData r of
        Inl e \<Rightarrow> Inl e
      | Inr groupedData' \<Rightarrow> groupRows groupingColumn groupedData' rs)"

text \<open>
  \<open>Object.entries\<close> lists the keys that are array indices first, in ascending numeric
  order, then the other keys in the order of their creation.  An array index is the
  decimal text, without leading zeros, of an integer below \<open>2^32 - 1\<close>.
\<close>

definition isDigit :: "char \<Rightarrow> bool" where
  "isDigit c = (let n = of_char c :: nat in 48 \<le> n \<and> n \<le> 57)"

definition decimalValue :: "string \<Rightarrow> nat" where
  "decimalValue s = foldl (\<lambda>acc c. 10 * acc + (of_char c - 48)) 0 s"

definition isArrayIndex :: "string \<Rightarrow> bool" where
  "isArrayIndex s =
     (s \<noteq> [] \<and> list_all isDigit s \<and> (s = ''0'' \<or> hd s \<noteq> CHR ''0'')
      \<and> decimalValue s < 4294967295)"

definition objectEntries :: "(string \<times> 'a) list \<Rightarrow> (string \<times> 'a) list" where
  "objectEntries obj =
     sort_key (\<lambda>(k, v). decimalValue k) (filter (\<lambda>(k, v). isArrayIndex k) obj)
     @ filter (\<lambda>(k, v). \<not> isArrayIndex k) obj"

subsection \<open>The y values of a set of rows\<close>

definition xValuesOf :: "host \<Rightarrow> config \<Rightarrow> row list \<Rightarrow> date list" where
  "xValuesOf h cfg rows = map (\<lambda>r. convertTimestamp h (getCell r (selectedX cfg))) rows"

definition yValuesOf :: "host \<Rightarrow> string \<Rightarrow> row list \<Rightarrow> jsnum list" where
  "yValuesOf h col rows =
     filter (\<lambda>v. \<not> isNaN v) (map (\<lambda>r. parseFloat h (getCell r col)) rows)"

subsection \<open>Zero-baselining inside \<open>chartData\<close>\<close>

text \<open>
  The single-axis branches rebase in line (App.jsx lines 663-684 for a group, 741-762
  without grouping): the same loop as \<open>makeRelativeToZero\<close>, on an array of numbers, but
  an element that is \<open>NaN\<close> becomes \<open>0\<close>.
\<close>

fun firstValue :: "jsnum list \<Rightarrow> jsnum option" where
  "firstValue [] = None"
| "firstValue (v # vs) = (if \<not> isNaN v then Some v else firstValue vs)"

definition rebaseSingleAxis :: "bool \<Rightarrow> jsnum list \<Rightarrow> jsnum list" where
  "rebaseSingleAxis relative finalYValues =
     (if relative \<and> length finalYValues > 0 then
        (case firstValue finalYValues of
           None \<Rightarrow> finalYValues
         | Some first \<Rightarrow> map (\<lambda>val. if isNaN val then Fin 0 else js_sub val first) finalYValues)
      else finalYValues)"

text \<open>
  The grouped dual-axis branch (App.jsx lines 539-558) takes the element at index 0
  as the baseline and rebases only if that one is a number.
\<close>

definition rebaseDualAxis :: "bool \<Rightarrow> jsnum list \<Rightarrow> jsnum list" where
  "rebaseDualAxis relative finalYValues =
     (if relative then
        (if length finalYValues > 0 then
           (let firstValue1 = finalYValues ! 0 in
            if \<not> isNaN firstValue1
            then map (\<lambda>val. if isNaN val then Fin 0 else js_sub val firstValue1) finalYValues
            else finalYValues)
         else finalYValues)
      else finalYValues)"

subsection \<open>The four branches\<close>

definition useGrouping :: "config \<Rightarrow> row list \<Rightarrow> string option" where
  "useGrouping cfg filteredData =
     (case groupingColumnOf (dataColumns cfg) of
        None \<Rightarrow> None
      | Some groupingColumn \<Rightarrow>
          if groupingColumn \<noteq> [] \<and> list_ex (\<lambda>r. truthy (getCell r groupingColumn)) filteredData
          then Some groupingColumn else None)"

text \<open>
  One round of the \<open>forEach\<close> over the groups in dual-axis mode (App.jsx lines 529-593):
  the state is the array \<open>traces\<close> and the counter \<open>colorIndex\<close>.
\<close>

definition dualAxisGroup ::
  "host \<Rightarrow> config \<Rightarrow> trace list \<times> nat \<Rightarrow> string \<times> row list \<Rightarrow> trace list \<times> nat" where
  "dualAxisGroup h cfg state entry =
     (let traces = fst state; colorIndex = snd state;
          groupName = fst entry; groupRows = snd entry;
          xValues = xValuesOf h cfg groupRows;
          y1Values = yValuesOf h (selectedY cfg) groupRows;
          y2Values = yValuesOf h (selectedY2 cfg) groupRows
      in if length xValues > 0 \<and> length y1Values > 0 then
           (let finalY1Values = rebaseDualAxis (relativeToZero cfg) y1Values;
                finalY2Values = rebaseDualAxis (relativeToZero cfg) y2Values;
                y1Trace = \<lparr>trace_x = xValues, trace_y = map JNum finalY1Values,
                  trace_type = ''scatter'', trace_mode = ''lines+markers'',
                  trace_name = groupName @ '' - '' @ selectedY cfg,
                  trace_line = \<lparr>line_color = paletteColor colorIndex, line_width = None,
                    line_dash = None\<rparr>,
                  trace_marker = Some \<lparr>marker_color = paletteColor colorIndex,
                    marker_symbol = None\<rparr>,
                  trace_yaxis = Some ''y'', trace_opacity = None\<rparr>;
                y2Trace = \<lparr>trace_x = xValues,
                  trace_y = map JNum (if length finalY2Values > 0 then finalY2Values else y2Values),
                  trace_type = ''scatter'', trace_mode = ''lines+markers'',
                  trace_name = groupName @ '' - '' @ selectedY2 cfg,
                  trace_line = \<lparr>line_color = ''#038357'', line_width = None,
                    line_dash = Some ''dash''\<rparr>,
                  trace_marker = Some \<lparr>marker_color = ''#038357'',
                    marker_symbol = Some ''square''\<rparr>,
                  trace_yaxis = Some ''y2'', trace_opacity = None\<rparr>
            in (traces @ [y1Trace, y2Trace], colorIndex + 1))
         else (traces, colorIndex))"

text \<open>Dual-axis mode without grouping (App.jsx lines 597-627).\<close>

definition dualAxisUngrouped :: "host \<Rightarrow> config \<Rightarrow> row list \<Rightarrow> trace list" where
  "dualAxisUngrouped h cfg filteredData =
     (let xValues = xValuesOf h cfg filteredData;
          y1Values = yValuesOf h (selectedY cfg) filteredData;
          y2Values = yValuesOf h (selectedY2 cfg) filteredData;
          finalY1Values = (if relativeToZero cfg then makeRelativeToZero h (map JNum y1Values)
                           else map JNum y1Values);
          finalY2Values = (if relativeToZero cfg then makeRelativeToZero h (map JNum y2Values)
                           else map JNum y2Values)
      in [\<lparr>trace_x = xValues, trace_y = finalY1Values,
            trace_type = ''scatter'', trace_mode = ''lines+markers'',
            trace_name = selectedY cfg,
            trace_line = \<lparr>line_color = COLOR_PALETTE ! 0, line_width = None, line_dash = None\<rparr>,
            trace_marker = Some \<lparr>marker_color = COLOR_PALETTE ! 0, marker_symbol = None\<rparr>,
            trace_yaxis = Some ''y'', trace_opacity = None\<rparr>,
          \<lparr>trace_x = xValues, trace_y = finalY2Values,
            trace_type = ''scatter'', trace_mode = ''lines+markers'',
            trace_name = selectedY2 cfg,
            trace_line = \<lparr>line_color = COLOR_PALETTE ! 1, line_width = None,
              line_dash = Some ''dash''\<rparr>,
            trace_marker = Some \<lparr>marker_color = COLOR_PALETTE ! 1,
              marker_symbol = Some ''square''\<rparr>,
            trace_yaxis = Some ''y2'', trace_opacity = None\<rparr>])"

text \<open>
  One round of the \<open>forEach\<close> over the groups in single-axis mode (App.jsx lines
  654-731).  The data points of the time-based smoother pair each x value with
  \<open>finalYValues[idx]\<close>, which is \<open>undefined\<close> beyond the end of \<open>finalYValues\<close>.
\<close>

definition dataPointsOf :: "date list \<Rightarrow> jsnum list \<Rightarrow> point list" where
  "dataPointsOf xValues finalYValues =
     map (\<lambda>(idx, t). \<lparr>timestamp = t,
            val = (if idx < length finalYValues then Some (finalYValues ! idx) else None)\<rparr>)
       (enumerate 0 xValues)"

definition numberOrUndefined :: "jsnum option \<Rightarrow> jsval" where
  "numberOrUndefined v = (case v of None \<Rightarrow> JUndefined | Some n \<Rightarrow> JNum n)"

definition singleAxisGroup ::
  "host \<Rightarrow> config \<Rightarrow> trace list \<times> nat \<Rightarrow> string \<times> row list \<Rightarrow> trace list \<times> nat" where
  "singleAxisGroup h cfg state entry =
     (let traces = fst state; colorIndex = snd state;
          groupName = fst entry; groupRows = snd entry;
          xValues = xValuesOf h cfg groupRows;
          yValues = yValuesOf h (selectedY cfg) groupRows
      in if length xValues > 0 \<and> length yValues > 0 then
           (let finalYValues = rebaseSingleAxis (relativeToZero cfg) yValues;
                baseTrace = \<lparr>trace_x = xValues, trace_y = map JNum finalYValues,
                  trace_type = (if chartType cfg = CHART_LINE then ''scatter'' else chartType cfg),
                  trace_mode = (if chartType cfg = CHART_LINE then ''lines+markers'' else ''markers''),
                  trace_name = groupName @ '' - '' @ selectedY cfg,
                  trace_line = \<lparr>line_color = paletteColor colorIndex, line_width = None,
                    line_dash = None\<rparr>,
                  trace_marker = Some \<lparr>marker_color = paletteColor colorIndex,
                    marker_symbol = None\<rparr>,
                  trace_yaxis = None, trace_opacity = None\<rparr>;
                smoothed =
                  (if showSmooth cfg \<and>
                      int (length yValues) >
                        (if smoothingType cfg = ''count'' then smoothingWindow cfg else 2)
                   then
                     (let smoothedY =
                        (if smoothingType cfg = ''time''
                         then map numberOrUndefined
                                (timeBasedMovingAverage (dataPointsOf xValues finalYValues)
                                   (Fin (of_int (smoothingHours cfg))))
                         else map JNum (movingAverage finalYValues (smoothingWindow cfg)))
                      in [\<lparr>trace_x = xValues, trace_y = smoothedY,
                            trace_type = ''scatter'', trace_mode = ''lines'',
                            trace_name = groupName @ '' - '' @ selectedY cfg @ '' (Smoothed)'',
                            trace_line = \<lparr>line_color = paletteColor colorIndex,
                              line_width = Some 3, line_dash = Some ''dash''\<rparr>,
                            trace_marker = None,
                            trace_yaxis = None, trace_opacity = Some 0.7\<rparr>])
                   else [])
            in (traces @ [baseTrace] @ smoothed, colorIndex + 1))
         else (traces, colorIndex))"

text \<open>Single-axis mode without grouping (App.jsx lines 735-790).\<close>

definition singleAxisUngrouped :: "host \<Rightarrow> config \<Rightarrow> row list \<Rightarrow> trace list" where
  "singleAxisUngrouped h cfg filteredData =
     (let xValues = xValuesOf h cfg filteredData;
          yValues = yValuesOf h (selectedY cfg) filteredData;
          finalYValues = rebaseSingleAxis (relativeToZero cfg) yValues;
          baseTrace = \<lparr>trace_x = xValues, trace_y = map JNum finalYValues,
            trace_type = (if chartType cfg = CHART_LINE then ''scatter'' else chartType cfg),
            trace_mode = (if chartType cfg = CHART_LINE then ''lines+markers'' else ''markers''),
            trace_name = selectedY cfg,
            trace_line = \<lparr>line_color = COLOR_PALETTE ! 0, line_width = None, line_dash = None\<rparr>,
            trace_marker = Some \<lparr>marker_color = COLOR_PALETTE ! 0, marker_symbol = None\<rparr>,
            trace_yaxis = None, trace_opacity = None\<rparr>
      in if showSmooth cfg \<and> int (length yValues) > smoothingWindow cfg then
           [baseTrace,
            \<lparr>trace_x = xValues,
              trace_y = map JNum (movingAverage yValues (smoothingWindow cfg)),
              trace_type = ''scatter'', trace_mode = ''lines'',
              trace_name = selectedY cfg @ '' (Smoothed)'',
              trace_line = \<lparr>line_color = COLOR_PALETTE ! 1, line_width = Some 3,
                line_dash = None\<rparr>,
              trace_marker = None,
              trace_yaxis = None, trace_opacity = Some 0.8\<rparr>]
         else [baseTrace])"

text \<open>
  \<open>chartData\<close> (App.jsx lines 499-792): no rows, no traces; otherwise one of the four
  branches.  The result is an error when grouping throws.
\<close>

definition groupedTraces ::
  "(trace list \<times> nat \<Rightarrow> string \<times> row list \<Rightarrow> trace list \<times> nat) \<Rightarrow> string \<Rightarrow> row list
     \<Rightarrow> error + trace list" where
  "groupedTraces eachGroup groupingColumn filteredData =
     (case groupRows groupingColumn [] filteredData of
        Inl e \<Rightarrow> Inl e
      | Inr groupedData \<Rightarrow> Inr (fst (foldl eachGroup ([], 0) (objectEntries groupedData))))"

definition chartData :: "host \<Rightarrow> config \<Rightarrow> row list \<Rightarrow> error + trace list" where
  "chartData h cfg filteredData =
     (if length filteredData = 0 then Inr []
      else if chartType cfg = CHART_DUAL_AXIS then
        (case useGrouping cfg filteredData of
           Some groupingColumn \<Rightarrow> groupedTraces (dualAxisGroup h cfg) groupingColumn filteredData
         | None \<Rightarrow> Inr (dualAxisUngrouped h cfg filteredData))
      else
        (case useGrouping cfg filteredData of
           Some groupingColumn \<Rightarrow> groupedTraces (singleAxisGroup h cfg) groupingColumn filteredData
         | None \<Rightarrow> Inr (singleAxisUngrouped h cfg filteredData)))"

section \<open>Statistics and pattern detection\<close>

subsection \<open>Sorting with the comparator \<open>(a, b) => a - b\<close>\<close>

text \<open>
  \<open>Array.prototype.sort\<close> is stable, and for a consistent comparator every stable sort
  returns the same array: here insertion from the right, an element going before the
  first one it does not exceed.  \<open>a - b\<close> is a consistent comparator on numbers that
  are not \<open>NaN\<close> (a \<open>NaN\<close> result, from two equal infinities, counts as \<open>0\<close>); the arrays
  sorted by the code are filtered of \<open>NaN\<close> before.
\<close>

fun js_insort :: "jsnum \<Rightarrow> jsnum list \<Rightarrow> jsnum list" where
  "js_insort a [] = [a]"
| "js_insort a (b # bs) =
     (if js_gt (js_sub a b) (Fin 0) then b # js_insort a bs else a # b # bs)"

definition js_sort :: "jsnum list \<Rightarrow> jsnum list" where
  "js_sort xs = foldr js_insort xs []"

subsection \<open>\<open>toFixed(4)\<close>\<close>

text \<open>
  \<open>x.toFixed(4)\<close> is a string.  It is kept as the number the string denotes, under the
  constructor \<open>StatFixed4\<close>: the integer \<open>n\<close> nearest to \<open>|x| * 10^4\<close> (the larger one on a
  tie) over \<open>10^4\<close>, with the sign of \<open>x\<close>, so that a negative \<open>x\<close> rounding to zero gives
  the string \<open>-0.0000\<close>, which denotes \<open>-0\<close>; from \<open>10^21\<close> on the string is the number's
  own text.  \<open>parseFloat\<close> of the string is that number.  A field that holds a number
  (the zeros of the empty case) is under \<open>StatNumber\<close>.
\<close>

datatype stat = StatNumber jsnum | StatFixed4 jsnum

definition fixedValue :: "jsnum \<Rightarrow> jsnum" where
  "fixedValue a =
     (case a of
        NaN \<Rightarrow> NaN
      | PInf \<Rightarrow> PInf
      | NInf \<Rightarrow> NInf
      | NZero \<Rightarrow> Fin 0
      | Fin x \<Rightarrow>
          if \<bar>x\<bar> \<ge> 10 ^ 21 then Fin x
          else
            let n = \<lfloor>\<bar>x\<bar> * 10000 + 1 / 2\<rfloor> in
            if x < 0 then (if n = 0 then NZero else Fin (- (of_int n / 10000)))
            else Fin (of_int n / 10000))"

definition toFixed4 :: "jsnum \<Rightarrow> stat" where
  "toFixed4 a = StatFixed4 (fixedValue a)"

fun parseFloatStat :: "stat \<Rightarrow> jsnum" where
  "parseFloatStat (StatNumber n) = (if n = NZero then Fin 0 else n)"
| "parseFloatStat (StatFixed4 v) = v"

subsection \<open>\<open>calculateStatistics\<close>\<close>

text \<open>
  App.jsx lines 58-73.  The local constants \<open>mean\<close>, \<open>variance\<close> and \<open>stdDev\<close> are the
  functions \<open>meanOfData\<close>, \<open>varianceOfData\<close> and \<open>stdDevOfData\<close>; the fields \<open>min\<close>, \<open>max\<close>
  and \<open>count\<close> carry a prime.  The limit an engine puts on the number of arguments of a
  call (\<open>Math.min(...data)\<close> spreads the whole array) is not modelled.
\<close>

record statistics =
  mean :: stat
  stdDev :: stat
  min' :: stat
  max' :: stat
  median :: stat
  count' :: nat

definition meanOfData :: "jsnum list \<Rightarrow> jsnum" where
  "meanOfData data = js_div (foldl js_add (Fin 0) data) (numOfNat (length data))"

definition varianceOfData :: "jsnum list \<Rightarrow> jsnum" where
  "varianceOfData data =
     js_div (foldl (\<lambda>acc v. js_add acc (Math_pow2 (js_sub v (meanOfData data)))) (Fin 0) data)
       (numOfNat (length data))"

definition stdDevOfData :: "jsnum list \<Rightarrow> jsnum" where
  "stdDevOfData data = Math_sqrt (varianceOfData data)"

definition calculateStatistics :: "jsnum list \<Rightarrow> statistics" where
  "calculateStatistics data =
     (if length data = 0 then
        \<lparr>mean = StatNumber (Fin 0), stdDev = StatNumber (Fin 0), min' = StatNumber (Fin 0),
         max' = StatNumber (Fin 0), median = StatNumber (Fin 0), count' = 0\<rparr>
      else
        let sorted' = js_sort data in
        \<lparr>mean = toFixed4 (meanOfData data),
         stdDev = toFixed4 (stdDevOfData data),
         min' = toFixed4 (Math_min data),
         max' = toFixed4 (Math_max data),
         median = toFixed4 (sorted' ! nat \<lfloor>real (length sorted') / 2\<rfloor>),
         count' = length data\<rparr>)"

subsection \<open>\<open>detectTrend\<close>, \<open>detectSeasonality\<close>, \<open>detectOutliers\<close>\<close>

text \<open>App.jsx lines 133-146: the loop keeps the two counters.\<close>

definition trendStep :: "jsnum list \<Rightarrow> nat \<times> nat \<Rightarrow> nat \<Rightarrow> nat \<times> nat" where
  "trendStep values counters i =
     (let increasing = fst counters; decreasing = snd counters in
      if js_gt (values ! i) (values ! (i - 1)) then (increasing + 1, decreasing)
      else if js_lt (values ! i) (values ! (i - 1)) then (increasing, decreasing + 1)
      else (increasing, decreasing))"

definition detectTrend :: "jsnum list \<Rightarrow> string" where
  "detectTrend values =
     (if length values < 3 then ''none''
      else
        let counters = foldl (trendStep values) (0, 0) [1..<length values];
            increasing = fst counters; decreasing = snd counters;
            total = length values - 1
        in if js_gt (js_div (numOfNat increasing) (numOfNat total)) (Fin 0.7) then ''increasing''
           else if js_gt (js_div (numOfNat decreasing) (numOfNat total)) (Fin 0.7) then ''decreasing''
           else ''stable'')"

text \<open>
  App.jsx lines 148-178.  \<open>cycleValues.reduce((a, b) => a + b)\<close> has no initial value: it
  starts from the first element (the array has more than one here).
\<close>

definition cycleValuesOf :: "jsnum list \<Rightarrow> nat \<Rightarrow> nat \<Rightarrow> nat \<Rightarrow> jsnum list" where
  "cycleValuesOf values period cycles i =
     map (\<lambda>j. values ! (i + j * period))
       (filter (\<lambda>j. i + j * period < length values) [0..<cycles])"

definition lowVariancePhase :: "jsnum list \<Rightarrow> nat \<Rightarrow> nat \<Rightarrow> nat \<Rightarrow> bool" where
  "lowVariancePhase values period cycles i =
     (let cycleValues = cycleValuesOf values period cycles i in
      if length cycleValues > 1 then
        (let mean' = js_div (foldl js_add (hd cycleValues) (tl cycleValues))
                       (numOfNat (length cycleValues));
             variance = js_div
               (foldl (\<lambda>acc v. js_add acc (Math_pow2 (js_sub v mean'))) (Fin 0) cycleValues)
               (numOfNat (length cycleValues))
         in js_lt variance (js_mul mean' (Fin 0.1)))
      else False)"

definition correlationOf :: "jsnum list \<Rightarrow> nat \<Rightarrow> nat" where
  "correlationOf values period =
     (let cycles = length values div period in
      if cycles > 1 then length (filter (lowVariancePhase values period cycles) [0..<period])
      else 0)"

fun firstSeasonalPeriod :: "jsnum list \<Rightarrow> nat list \<Rightarrow> nat option" where
  "firstSeasonalPeriod values [] = None"
| "firstSeasonalPeriod values (period # periods) =
     (if length values \<ge> period * 2
         \<and> js_gt (js_div (numOfNat (correlationOf values period)) (numOfNat period)) (Fin 0.6)
      then Some period
      else firstSeasonalPeriod values periods)"

definition detectSeasonality :: "jsnum list \<Rightarrow> nat option" where
  "detectSeasonality values =
     (if length values < 12 then None else firstSeasonalPeriod values [7, 12, 24, 30])"

text \<open>App.jsx lines 180-195.  The field \<open>value\<close> carries a prime.\<close>

record outlier =
  index :: nat
  value' :: jsnum
  isOutlier :: bool

definition detectOutliers :: "jsnum list \<Rightarrow> outlier list" where
  "detectOutliers values =
     (if length values < 4 then []
      else
        let sorted' = js_sort values;
            q1 = sorted' ! nat \<lfloor>real (length sorted') * 0.25\<rfloor>;
            q3 = sorted' ! nat \<lfloor>real (length sorted') * 0.75\<rfloor>;
            iqr = js_sub q3 q1;
            lowerBound = js_sub q1 (js_mul (Fin 1.5) iqr);
            upperBound = js_add q3 (js_mul (Fin 1.5) iqr)
        in filter isOutlier
             (map (\<lambda>(idx, v). \<lparr>index = idx, value' = v,
                      isOutlier = (js_lt v lowerBound \<or> js_gt v upperBound)\<rparr>)
               (enumerate 0 values)))"

subsection \<open>\<open>detectDataPatterns\<close>\<close>

text \<open>
  App.jsx lines 109-131.  The result object is a map from column names to patterns; the
  field \<open>range\<close> carries a prime.  The statistics arrive as \<open>toFixed(4)\<close> strings and are
  read back with \<open>parseFloat\<close>.
\<close>

record pattern =
  volatility :: string
  trend :: string
  seasonality :: "nat option"
  outliers :: "outlier list"
  range' :: jsnum
  scale :: string

definition patternOf :: "jsnum list \<Rightarrow> pattern" where
  "patternOf values =
     (let stats = calculateStatistics values;
          rangeValue = js_sub (parseFloatStat (max' stats)) (parseFloatStat (min' stats));
          cv = js_div (parseFloatStat (stdDev stats)) (parseFloatStat (mean stats))
      in \<lparr>volatility = (if js_gt cv (Fin 0.5) then ''high''
                         else if js_gt cv (Fin 0.2) then ''medium'' else ''low''),
           trend = detectTrend values,
           seasonality = detectSeasonality values,
           outliers = detectOutliers values,
           range' = rangeValue,
           scale = (if js_gt rangeValue (Fin 1000) then ''large''
                    else if js_gt rangeValue (Fin 100) then ''medium'' else ''small'')\<rparr>)"

definition detectDataPatterns :: "host \<Rightarrow> row list \<Rightarrow> string list \<Rightarrow> (string \<rightharpoonup> pattern)" where
  "detectDataPatterns h data columns =
     foldl (\<lambda>patterns col.
       let values = yValuesOf h col data in
       if length values = 0 then patterns
       else patterns(col \<mapsto> patternOf values)) Map.empty columns"

section \<open>Notions used in the statements\<close>



text \<open>
  The zero-baseliner: the map it applies once a baseline \<open>b\<close> is found; a uniform
  translation of the numeric entries of a sequence by a real \<open>c\<close>; equality of two
  entries as JavaScript's \<open>==\<close> sees two numbers (\<open>-0\<close> and \<open>+0\<close> are the same value);
  and the condition that the baseline, if there is one, is a finite number.
\<close>

definition rebase :: "host \<Rightarrow> jsnum \<Rightarrow> jsval \<Rightarrow> jsval" where
  "rebase h b v = (if isNaN (Number h v) then v else JNum (js_sub (Number h v) b))"

definition shift :: "host \<Rightarrow> real \<Rightarrow> jsval \<Rightarrow> jsval" where
  "shift h c v = (if isNaN (Number h v) then v else JNum (js_add (Number h v) (Fin c)))"

definition translate :: "host \<Rightarrow> real \<Rightarrow> jsval list \<Rightarrow> jsval list" where
  "translate h c vs = map (shift h c) vs"

fun sameValue :: "jsval \<Rightarrow> jsval \<Rightarrow> bool" where
  "sameValue (JNum a) (JNum b) = (a = b \<or> (isZero a \<and> isZero b))"
| "sameValue u v = (u = v)"

definition baselineIsFinite :: "host \<Rightarrow> jsval list \<Rightarrow> bool" where
  "baselineIsFinite h vs =
     (case firstValidValue h vs of None \<Rightarrow> True | Some b \<Rightarrow> isFiniteNum b)"

subsection \<open>A host for concrete evaluations\<close>

text \<open>
  \<open>plainHost\<close> reads decimal literals (sign, digits, fraction, exponent, \<open>Infinity\<close>) the
  way \<open>parseFloat\<close> and \<open>Number\<close> do, knows the three dates of the specification's
  end-to-end scenario and no other date format, and has a fixed clock.  It serves the
  evaluations at concrete inputs; the general theorems do not depend on it.
\<close>

definition digitOf :: "char \<Rightarrow> nat option" where
  "digitOf c = (let n = of_char c :: nat in if 48 \<le> n \<and> n \<le> 57 then Some (n - 48) else None)"

fun readDigits :: "string \<Rightarrow> nat \<Rightarrow> nat \<Rightarrow> nat \<times> nat \<times> string" where
  "readDigits [] acc k = (acc, k, [])"
| "readDigits (c # cs) acc k =
     (case digitOf c of
        Some d \<Rightarrow> readDigits cs (10 * acc + d) (Suc k)
      | None \<Rightarrow> (acc, k, c # cs))"

definition readSign :: "string \<Rightarrow> bool \<times> string" where
  "readSign s =
     (case s of
        [] \<Rightarrow> (False, s)
      | c # cs \<Rightarrow> if c = CHR ''-'' then (True, cs) else if c = CHR ''+'' then (False, cs) else (False, s))"

definition readExponent :: "string \<Rightarrow> int \<times> string" where
  "readExponent s =
     (case s of
        [] \<Rightarrow> (0, s)
      | c # cs \<Rightarrow>
          if c = CHR ''e'' \<or> c = CHR ''E'' then
            (let (negative, s1) = readSign cs; (e, k, s2) = readDigits s1 0 0
             in if k = 0 then (0, s) else (if negative then - int e else int e, s2))
          else (0, s))"

definition scale10 :: "real \<Rightarrow> int \<Rightarrow> real" where
  "scale10 m e = (if 0 \<le> e then m * 10 ^ nat e else m / 10 ^ nat (- e))"

definition readDecimal :: "string \<Rightarrow> (jsnum \<times> string) option" where
  "readDecimal s =
     (let (negative, s1) = readSign s in
      if take 8 s1 = ''Infinity'' then Some (signedInf negative, drop 8 s1)
      else
        let (ip, ik, s2) = readDigits s1 0 0;
            (fp, fk, s3) =
              (case s2 of
                 [] \<Rightarrow> (0, 0, s2)
               | c # cs \<Rightarrow> if c = CHR ''.'' then readDigits cs 0 0 else (0, 0, s2))
        in if ik = 0 \<and> fk = 0 then None
           else
             let (e, s4) = readExponent s3;
                 m = scale10 (real ip + real fp / 10 ^ fk) e
             in Some (if m = 0 then signedZero negative else Fin (if negative then - m else m), s4))"

definition plainHost :: host where
  "plainHost =
     \<lparr>stringToNumber = (\<lambda>s.
        case readDecimal (dropWhile asciiWhiteSpace s) of
          None \<Rightarrow> NaN
        | Some (v, rest) \<Rightarrow> if list_all asciiWhiteSpace rest then v else NaN),
      parseFloatString = (\<lambda>s.
        case readDecimal (dropWhile asciiWhiteSpace s) of
          None \<Rightarrow> NaN
        | Some (v, rest) \<Rightarrow> v),
      dateParse = (\<lambda>s.
        if s = ''2024-01-01'' then ValidDate 1704067200000
        else if s = ''2024-01-02'' then ValidDate 1704153600000
        else if s = ''2024-01-03'' then ValidDate 1704240000000
        else InvalidDate),
      currentTime = 1700000000000\<rparr>"

text \<open>
  The rows of the specification's end-to-end scenario, with a second value column one
  of whose cells is not a number, and a state that selects them.
\<close>

definition exampleConfig :: config where
  "exampleConfig =
     \<lparr>selectedX = ''t'', selectedY = ''v'', selectedY2 = ''w'', chartType = CHART_LINE,
      showSmooth = False, smoothingWindow = 5, smoothingType = ''count'', smoothingHours = 24,
      relativeToZero = True, dataColumns = [''t'', ''v'', ''w'']\<rparr>"

definition exampleRows :: "row list" where
  "exampleRows =
     [[(''t'', ''2024-01-01''), (''v'', ''10''), (''w'', ''1.5'')],
      [(''t'', ''2024-01-02''), (''v'', ''20''), (''w'', ''n/a'')],
      [(''t'', ''2024-01-03''), (''v'', ''30''), (''w'', ''2.5'')]]"

text \<open>
  Following the specification's words for the time-based smoother: the mean of the values
  at indices \<open>j \<le> i\<close> whose instant lies in the closed interval from
  \<open>instant_i - hours * 3600000\<close> to \<open>instant_i\<close>; the raw value at \<open>i\<close> if none qualifies.
\<close>

definition closedWindowAverage :: "point list \<Rightarrow> jsnum \<Rightarrow> nat \<Rightarrow> jsnum option" where
  "closedWindowAverage dataPoints hours i =
     (let instant = getTime (timestamp (dataPoints ! i));
          lower = js_sub instant (js_mul hours (Fin 3600000));
          selected = map snd (filter (\<lambda>(j, p).
              j \<le> i \<and> js_ge (getTime (timestamp p)) lower \<and> js_le (getTime (timestamp p)) instant)
            (enumerate 0 dataPoints))
      in if selected = [] then val (dataPoints ! i)
         else Some (js_div (foldl (\<lambda>acc p. plusValue acc (val p)) (Fin 0) selected)
                      (numOfNat (length selected))))"

definition instantOrder :: "point \<Rightarrow> point \<Rightarrow> bool" where
  "instantOrder p q = js_le (getTime (timestamp p)) (getTime (timestamp q))"

text \<open>
  The window the code selects for index \<open>i\<close> and the mean it takes; three points whose
  instants are not in index order, and three whose instants are.
\<close>

definition windowOf :: "point list \<Rightarrow> jsnum \<Rightarrow> nat \<Rightarrow> point list" where
  "windowOf pts hours i =
     map snd (filter (\<lambda>(j, p). j \<le> i \<and>
         js_ge (getTime (timestamp p)) (js_sub (getTime (timestamp (pts ! i))) (hoursToMs hours)))
       (enumerate 0 pts))"

definition meanOf :: "point list \<Rightarrow> jsnum" where
  "meanOf ps = js_div (foldl (\<lambda>acc p. plusValue acc (val p)) (Fin 0) ps) (numOfNat (length ps))"

definition unorderedPoints :: "point list" where
  "unorderedPoints =
     [\<lparr>timestamp = ValidDate 36000000, val = Some (Fin 100)\<rparr>,
      \<lparr>timestamp = ValidDate 0, val = Some (Fin 0)\<rparr>,
      \<lparr>timestamp = ValidDate 1000, val = Some (Fin 0)\<rparr>]"

definition orderedPoints :: "point list" where
  "orderedPoints =
     [\<lparr>timestamp = ValidDate 0, val = Some (Fin 10)\<rparr>,
      \<lparr>timestamp = ValidDate 3600000, val = Some (Fin 20)\<rparr>,
      \<lparr>timestamp = ValidDate 7200000, val = Some (Fin 60)\<rparr>]"


text \<open>
  Following the specification's words for the outliers: the quartiles at the sorted
  indices \<open>floor(0.25 N)\<close> and \<open>floor(0.75 N)\<close> and the bounds at one and a half times
  their distance, on numbers as the code has them and on the reals.
\<close>

definition outlierBounds :: "jsnum list \<Rightarrow> jsnum \<times> jsnum" where
  "outlierBounds values =
     (let q1 = js_sort values ! (length values div 4);
          q3 = js_sort values ! ((3 * length values) div 4);
          iqr = js_sub q3 q1
      in (js_sub q1 (js_mul (Fin 1.5) iqr), js_add q3 (js_mul (Fin 1.5) iqr)))"

definition lowerFence :: "real list \<Rightarrow> real" where
  "lowerFence xs =
     sort xs ! (length xs div 4)
       - 1.5 * (sort xs ! ((3 * length xs) div 4) - sort xs ! (length xs div 4))"

definition upperFence :: "real list \<Rightarrow> real" where
  "upperFence xs =
     sort xs ! ((3 * length xs) div 4)
       + 1.5 * (sort xs ! ((3 * length xs) div 4) - sort xs ! (length xs div 4))"

definition reported :: "nat \<Rightarrow> jsnum \<Rightarrow> outlier" where
  "reported i v = \<lparr>index = i, value' = v, isOutlier = True\<rparr>"

text \<open>
  The volatility class of a coefficient of variation, and what the pattern detector
  would compute from the statistics at full precision.
\<close>

definition volatilityOf :: "jsnum \<Rightarrow> string" where
  "volatilityOf cv =
     (if js_gt cv (Fin 0.5) then ''high'' else if js_gt cv (Fin 0.2) then ''medium'' else ''low'')"

definition fullPrecisionRange :: "jsnum list \<Rightarrow> jsnum" where
  "fullPrecisionRange values = js_sub (Math_max values) (Math_min values)"

definition fullPrecisionVolatility :: "jsnum list \<Rightarrow> string" where
  "fullPrecisionVolatility values = volatilityOf (js_div (stdDevOfData values) (meanOfData values))"

text \<open>Two files of two rows each, and the values of their column \<open>v\<close>.\<close>

definition smallValueRows :: "row list" where
  "smallValueRows = [[(''v'', ''0.00004'')], [(''v'', ''1'')]]"

definition smallValues :: "jsnum list" where
  "smallValues = [Fin (4 / 100000), Fin 1]"

definition nearTwoRows :: "row list" where
  "nearTwoRows = [[(''v'', ''0.99996'')], [(''v'', ''2.99996'')]]"

definition nearTwoValues :: "jsnum list" where
  "nearTwoValues = [Fin (99996 / 100000), Fin (299996 / 100000)]"

text \<open>
  For the traces: a column all of whose cells are numbers; a trace whose x and y have
  equal, non-empty length; a trace with a given x whose y has one of the given lengths;
  and rows of two stations, the second of which has no numeric value.
\<close>

definition allCellsNumeric :: "host \<Rightarrow> string \<Rightarrow> row list \<Rightarrow> bool" where
  "allCellsNumeric h col rows = list_all (\<lambda>r. \<not> isNaN (parseFloat h (getCell r col))) rows"

definition aligned :: "trace \<Rightarrow> bool" where
  "aligned t = (length (trace_x t) = length (trace_y t) \<and> 0 < length (trace_y t))"

definition shaped :: "date list \<Rightarrow> nat list \<Rightarrow> trace \<Rightarrow> bool" where
  "shaped X lengths t = (trace_x t = X \<and> length (trace_y t) \<in> set lengths)"

definition stationRows :: "row list" where
  "stationRows =
     [[(''Station'', ''A''), (''t'', ''2024-01-01''), (''v'', ''10'')],
      [(''Station'', ''A''), (''t'', ''2024-01-02''), (''v'', ''20'')],
      [(''Station'', ''B''), (''t'', ''2024-01-03''), (''v'', ''n/a'')]]"

definition stationConfig :: config where
  "stationConfig =
     \<lparr>selectedX = ''t'', selectedY = ''v'', selectedY2 = ''w'', chartType = CHART_LINE,
      showSmooth = False, smoothingWindow = 5, smoothingType = ''count'', smoothingHours = 24,
      relativeToZero = True, dataColumns = [''Station'', ''t'', ''v'']\<rparr>"

text \<open>An entry of the grouping object whose rows are some of the given rows, and at least one.\<close>

definition groupOf :: "row list \<Rightarrow> string \<times> row list \<Rightarrow> bool" where
  "groupOf rows e = (snd e \<noteq> [] \<and> set (snd e) \<subseteq> set rows)"

section \<open>Arithmetic on finite numbers\<close>





lemma js_min2_finite:
  "isFiniteNum a \<Longrightarrow> isFiniteNum b \<Longrightarrow>
     isFiniteNum (js_min2 a b) \<and> realOf (js_min2 a b) = min (realOf a) (realOf b)"
  by (cases a; cases b) (auto simp: js_min2_def)

lemma js_max2_finite:
  "isFiniteNum a \<Longrightarrow> isFiniteNum b \<Longrightarrow>
     isFiniteNum (js_max2 a b) \<and> realOf (js_max2 a b) = max (realOf a) (realOf b)"
  by (cases a; cases b) (auto simp: js_max2_def)

lemma foldl_js_min2_finite:
  "isFiniteNum a \<Longrightarrow> \<forall>v\<in>set vs. isFiniteNum v \<Longrightarrow>
     isFiniteNum (foldl js_min2 a vs) \<and> realOf (foldl js_min2 a vs) \<le> realOf a
     \<and> (\<forall>v\<in>set vs. realOf (foldl js_min2 a vs) \<le> realOf v)"
proof (induction vs arbitrary: a)
  case Nil
  then show ?case by simp
next
  case (Cons v vs)
  have step: "isFiniteNum (js_min2 a v)" "realOf (js_min2 a v) = min (realOf a) (realOf v)"
    using js_min2_finite [of a v] Cons.prems by simp_all
  from Cons.IH [OF step(1)] Cons.prems(2)
  have ih: "isFiniteNum (foldl js_min2 (js_min2 a v) vs)"
    "realOf (foldl js_min2 (js_min2 a v) vs) \<le> realOf (js_min2 a v)"
    "\<forall>u\<in>set vs. realOf (foldl js_min2 (js_min2 a v) vs) \<le> realOf u"
    by simp_all
  show ?case using ih step(2) by auto
qed

lemma foldl_js_max2_finite:
  "isFiniteNum a \<Longrightarrow> \<forall>v\<in>set vs. isFiniteNum v \<Longrightarrow>
     isFiniteNum (foldl js_max2 a vs) \<and> realOf a \<le> realOf (foldl js_max2 a vs)
     \<and> (\<forall>v\<in>set vs. realOf v \<le> realOf (foldl js_max2 a vs))"
proof (induction vs arbitrary: a)
  case Nil
  then show ?case by simp
next
  case (Cons v vs)
  have step: "isFiniteNum (js_max2 a v)" "realOf (js_max2 a v) = max (realOf a) (realOf v)"
    using js_max2_finite [of a v] Cons.prems by simp_all
  from Cons.IH [OF step(1)] Cons.prems(2)
  have ih: "isFiniteNum (foldl js_max2 (js_max2 a v) vs)"
    "realOf (js_max2 a v) \<le> realOf (foldl js_max2 (js_max2 a v) vs)"
    "\<forall>u\<in>set vs. realOf u \<le> realOf (foldl js_max2 (js_max2 a v) vs)"
    by simp_all
  show ?case using ih step(2) by auto
qed

lemma Math_min_finite:
  assumes "vs \<noteq> []" "\<forall>v\<in>set vs. isFiniteNum v"
  shows "isFiniteNum (Math_min vs) \<and> (\<forall>v\<in>set vs. realOf (Math_min vs) \<le> realOf v)"
proof (cases vs)
  case Nil
  with assms show ?thesis by simp
next
  case (Cons v rest)
  have first: "js_min2 PInf v = v" using assms(2) Cons by (cases v) (simp_all add: js_min2_def)
  show ?thesis
    using foldl_js_min2_finite [of v rest] assms(2) Cons by (auto simp: Math_min_def first)
qed

lemma Math_max_finite:
  assumes "vs \<noteq> []" "\<forall>v\<in>set vs. isFiniteNum v"
  shows "isFiniteNum (Math_max vs) \<and> (\<forall>v\<in>set vs. realOf v \<le> realOf (Math_max vs))"
proof (cases vs)
  case Nil
  with assms show ?thesis by simp
next
  case (Cons v rest)
  have first: "js_max2 NInf v = v" using assms(2) Cons by (cases v) (simp_all add: js_max2_def)
  show ?thesis
    using foldl_js_max2_finite [of v rest] assms(2) Cons by (auto simp: Math_max_def first)
qed






lemma js_sub_self_finite: "isFiniteNum a \<Longrightarrow> js_sub a a = Fin 0"
  by (cases a) (simp_all add: js_sub_def)

lemma js_sub_zero: "js_sub a (Fin 0) = a"
  by (cases a) (simp_all add: js_sub_def)

section \<open>Properties of the zero-baseliner\<close>

lemmas plainHost_eval = plainHost_def readDecimal_def readSign_def readExponent_def
  digitOf_def scale10_def asciiWhiteSpace_def signedZero_def signedInf_def

lemma makeRelativeToZero_Some:
  "firstValidValue h vs = Some b \<Longrightarrow> makeRelativeToZero h vs = map (rebase h b) vs"
  by (cases vs) (auto simp: makeRelativeToZero_def rebase_def)

lemma makeRelativeToZero_None:
  "firstValidValue h vs = None \<Longrightarrow> makeRelativeToZero h vs = vs"
  by (simp add: makeRelativeToZero_def)

lemma firstValidValue_map:
  assumes "\<And>v. v \<in> set vs \<Longrightarrow> isNaN (Number h (f v)) = isNaN (Number h v)"
    and "\<And>v. v \<in> set vs \<Longrightarrow> \<not> isNaN (Number h v) \<Longrightarrow> Number h (f v) = g (Number h v)"
  shows "firstValidValue h (map f vs) = map_option g (firstValidValue h vs)"
  using assms by (induction vs) auto

lemma js_sub_finite_not_NaN: "isFiniteNum b \<Longrightarrow> a \<noteq> NaN \<Longrightarrow> js_sub a b \<noteq> NaN"
  by (cases a; cases b) (auto simp: js_sub_def)

lemma js_add_Fin_not_NaN: "a \<noteq> NaN \<Longrightarrow> js_add a (Fin c) \<noteq> NaN"
  by (cases a) auto

lemma Number_rebase:
  "isFiniteNum b \<Longrightarrow> Number h (rebase h b v) = (if isNaN (Number h v) then NaN else js_sub (Number h v) b)"
  by (auto simp: rebase_def isNaN_def)

lemma isNaN_rebase: "isFiniteNum b \<Longrightarrow> isNaN (Number h (rebase h b v)) = isNaN (Number h v)"
  by (auto simp: Number_rebase isNaN_def js_sub_finite_not_NaN)

lemma rebase_zero_rebase: "isFiniteNum b \<Longrightarrow> rebase h (Fin 0) (rebase h b v) = rebase h b v"
  by (auto simp: rebase_def isNaN_def js_sub_zero js_sub_finite_not_NaN)

lemma makeRelativeToZero_idempotent:
  assumes "baselineIsFinite h vs"
  shows "makeRelativeToZero h (makeRelativeToZero h vs) = makeRelativeToZero h vs"
proof (cases "firstValidValue h vs")
  case None
  then show ?thesis by (simp add: makeRelativeToZero_None)
next
  case (Some b)
  with assms have fin: "isFiniteNum b" by (simp add: baselineIsFinite_def)
  have out: "makeRelativeToZero h vs = map (rebase h b) vs" using Some by (rule makeRelativeToZero_Some)
  have "firstValidValue h (map (rebase h b) vs) = map_option (\<lambda>x. js_sub x b) (firstValidValue h vs)"
  proof (intro firstValidValue_map)
    fix v show "isNaN (Number h (rebase h b v)) = isNaN (Number h v)"
      using fin by (rule isNaN_rebase)
  next
    fix v assume "\<not> isNaN (Number h v)"
    then show "Number h (rebase h b v) = js_sub (Number h v) b"
      using fin by (simp add: Number_rebase)
  qed
  then have "firstValidValue h (map (rebase h b) vs) = Some (Fin 0)"
    using Some fin by (simp add: js_sub_self_finite)
  then have "makeRelativeToZero h (map (rebase h b) vs) = map (rebase h (Fin 0)) (map (rebase h b) vs)"
    by (rule makeRelativeToZero_Some)
  also have "\<dots> = map (rebase h b) vs" using fin by (simp add: rebase_zero_rebase)
  finally show ?thesis by (simp add: out)
qed

lemma isNaN_shift: "isNaN (Number h (shift h c v)) = isNaN (Number h v)"
  by (auto simp: shift_def isNaN_def js_add_Fin_not_NaN)

lemma Number_shift: "\<not> isNaN (Number h v) \<Longrightarrow> Number h (shift h c v) = js_add (Number h v) (Fin c)"
  by (simp add: shift_def)

lemma rebase_shift:
  assumes "isFiniteNum b"
  shows "sameValue (rebase h (js_add b (Fin c)) (shift h c v)) (rebase h b v)"
proof (cases "isNaN (Number h v)")
  case True
  then have "rebase h (js_add b (Fin c)) (shift h c v) = v" "rebase h b v = v"
    by (simp_all add: rebase_def shift_def)
  then show ?thesis by (cases v) simp_all
next
  case False
  then have "\<not> isNaN (Number h (shift h c v))" by (simp add: isNaN_shift)
  then have "rebase h (js_add b (Fin c)) (shift h c v) = JNum (js_sub (Number h (shift h c v)) (js_add b (Fin c)))"
    unfolding rebase_def by simp
  then have l: "rebase h (js_add b (Fin c)) (shift h c v) = JNum (js_sub (js_add (Number h v) (Fin c)) (js_add b (Fin c)))"
    using Number_shift [OF False, of c] by simp
  have r: "rebase h b v = JNum (js_sub (Number h v) b)" using False by (simp add: rebase_def)
  show ?thesis
    unfolding l r using assms False
    by (cases "Number h v"; cases b) (auto simp: js_sub_def isNaN_def)
qed

lemma makeRelativeToZero_translate:
  assumes "baselineIsFinite h vs"
  shows "list_all2 sameValue (makeRelativeToZero h (translate h c vs)) (makeRelativeToZero h vs)"
proof (cases "firstValidValue h vs")
  case None
  have "firstValidValue h (map (shift h c) vs) = map_option (\<lambda>x. js_add x (Fin c)) (firstValidValue h vs)"
    by (intro firstValidValue_map) (simp_all add: isNaN_shift Number_shift)
  then have n: "firstValidValue h (translate h c vs) = None"
    using None by (simp add: translate_def)
  have "\<And>v. v \<in> set vs \<Longrightarrow> isNaN (Number h v)"
    using None by (induction vs) (auto split: if_splits)
  then have "translate h c vs = vs"
    by (simp add: translate_def shift_def map_idI)
  then show ?thesis
    using None n by (simp add: makeRelativeToZero_None list_all2_conv_all_nth) (metis sameValue.simps jsval.exhaust)
next
  case (Some b)
  with assms have fin: "isFiniteNum b" by (simp add: baselineIsFinite_def)
  have tr: "translate h c vs = map (shift h c) vs" by (simp add: translate_def)
  have "firstValidValue h (map (shift h c) vs) = map_option (\<lambda>x. js_add x (Fin c)) (firstValidValue h vs)"
    by (intro firstValidValue_map) (simp_all add: isNaN_shift Number_shift)
  then have "firstValidValue h (translate h c vs) = Some (js_add b (Fin c))"
    using Some by (simp add: tr)
  then have l: "makeRelativeToZero h (translate h c vs) = map (rebase h (js_add b (Fin c))) (map (shift h c) vs)"
    using makeRelativeToZero_Some tr by metis
  have r: "makeRelativeToZero h vs = map (rebase h b) vs" using Some by (rule makeRelativeToZero_Some)
  show ?thesis
    unfolding l r by (simp add: list_all2_conv_all_nth rebase_shift [OF fin])
qed

lemma makeRelativeToZero_first:
  assumes "vs \<noteq> []" "isFiniteNum (Number h (vs ! 0))"
  shows "makeRelativeToZero h vs ! 0 = JNum (Fin 0)"
proof -
  obtain v rest where vs: "vs = v # rest" using assms(1) by (cases vs) auto
  then have fin: "isFiniteNum (Number h v)" using assms(2) by simp
  then have nn: "\<not> isNaN (Number h v)" by (cases "Number h v") (simp_all add: isNaN_def)
  then have "firstValidValue h vs = Some (Number h v)" by (simp add: vs)
  then have "makeRelativeToZero h vs = map (rebase h (Number h v)) vs" by (rule makeRelativeToZero_Some)
  then show ?thesis using nn fin by (simp add: vs rebase_def js_sub_self_finite)
qed

lemma length_makeRelativeToZero: "length (makeRelativeToZero h vs) = length vs"
  by (simp add: makeRelativeToZero_def split: option.split)

text \<open>
  C5 (as amended).  Whenever the baseline (the first valid value) of a sequence is a
  finite number: if the element at index 0 is numeric, the output has \<open>0\<close> there;
  baselining an already baselined sequence changes nothing; and baselining the sequence
  translated by any real \<open>c\<close> gives the values of baselining the sequence itself.
  The output has the length of the input.
\<close>

theorem makeRelativeToZero_baseline_laws:
  assumes "baselineIsFinite h vs"
  shows "(vs \<noteq> [] \<and> \<not> isNaN (Number h (vs ! 0)) \<longrightarrow> makeRelativeToZero h vs ! 0 = JNum (Fin 0))
     \<and> makeRelativeToZero h (makeRelativeToZero h vs) = makeRelativeToZero h vs
     \<and> list_all2 sameValue (makeRelativeToZero h (translate h c vs)) (makeRelativeToZero h vs)
     \<and> length (makeRelativeToZero h vs) = length vs"
proof -
  have first: "makeRelativeToZero h vs ! 0 = JNum (Fin 0)"
    if ne: "vs \<noteq> []" and num: "\<not> isNaN (Number h (vs ! 0))"
  proof -
    obtain v rest where vs: "vs = v # rest" using ne by (cases vs) auto
    with num have "firstValidValue h vs = Some (Number h (vs ! 0))" by simp
    with assms have "isFiniteNum (Number h (vs ! 0))" by (simp add: baselineIsFinite_def)
    with ne show ?thesis by (rule makeRelativeToZero_first)
  qed
  show ?thesis
    using first makeRelativeToZero_idempotent [OF assms] makeRelativeToZero_translate [OF assms]
    by (simp add: length_makeRelativeToZero)
qed

theorem makeRelativeToZero_baseline_laws_witness:
  "baselineIsFinite plainHost [JStr ''10'', JStr ''n/a'', JNum (Fin 25), JNull]
   \<and> makeRelativeToZero plainHost [JStr ''10'', JStr ''n/a'', JNum (Fin 25), JNull]
       = [JNum (Fin 0), JStr ''n/a'', JNum (Fin 15), JNum (Fin (- 10))]
   \<and> makeRelativeToZero plainHost [JStr ''10'', JStr ''n/a'', JNum (Fin 25), JNull] ! 0 = JNum (Fin 0)
   \<and> makeRelativeToZero plainHost
         (makeRelativeToZero plainHost [JStr ''10'', JStr ''n/a'', JNum (Fin 25), JNull])
       = makeRelativeToZero plainHost [JStr ''10'', JStr ''n/a'', JNum (Fin 25), JNull]
   \<and> list_all2 sameValue
         (makeRelativeToZero plainHost
            (translate plainHost 7 [JStr ''10'', JStr ''n/a'', JNum (Fin 25), JNull]))
         (makeRelativeToZero plainHost [JStr ''10'', JStr ''n/a'', JNum (Fin 25), JNull])"
proof -
  let ?vs = "[JStr ''10'', JStr ''n/a'', JNum (Fin 25), JNull]"
  have n0: "stringToNumber plainHost ''10'' = Fin 10" by (simp add: plainHost_eval)
  have n1: "stringToNumber plainHost ''n/a'' = NaN" by (simp add: plainHost_eval)
  have fin: "baselineIsFinite plainHost ?vs"
    by (simp add: baselineIsFinite_def n0 isNaN_def asciiWhiteSpace_def)
  have out: "makeRelativeToZero plainHost ?vs
      = [JNum (Fin 0), JStr ''n/a'', JNum (Fin 15), JNum (Fin (- 10))]"
    by (simp add: makeRelativeToZero_def n0 n1 isNaN_def js_sub_def asciiWhiteSpace_def)
  show ?thesis
    using makeRelativeToZero_baseline_laws [OF fin, of 7] fin out by simp
qed

text \<open>
  C5 as stated speaks of every sequence whose first element is numeric.  \<open>Infinity\<close>
  passes the validity test (it is not \<open>NaN\<close>), and \<open>Infinity - Infinity\<close> is \<open>NaN\<close>:
  the output does not start with \<open>0\<close>, and baselining the output again finds another
  baseline.
\<close>

theorem makeRelativeToZero_infinite_counterexample:
  "\<not> isNaN (Number plainHost (JNum PInf))
   \<and> makeRelativeToZero plainHost [JNum PInf, JNum (Fin 1)] = [JNum NaN, JNum NInf]
   \<and> makeRelativeToZero plainHost [JNum PInf, JNum (Fin 1)] ! 0 \<noteq> JNum (Fin 0)
   \<and> makeRelativeToZero plainHost (makeRelativeToZero plainHost [JNum PInf, JNum (Fin 1)])
       = [JNum NaN, JNum NaN]
   \<and> makeRelativeToZero plainHost (makeRelativeToZero plainHost [JNum PInf, JNum (Fin 1)])
       \<noteq> makeRelativeToZero plainHost [JNum PInf, JNum (Fin 1)]"
proof -
  have out: "makeRelativeToZero plainHost [JNum PInf, JNum (Fin 1)] = [JNum NaN, JNum NInf]"
    by (simp add: makeRelativeToZero_def isNaN_def js_sub_def)
  have again: "makeRelativeToZero plainHost [JNum NaN, JNum NInf] = [JNum NaN, JNum NaN]"
    by (simp add: makeRelativeToZero_def isNaN_def js_sub_def)
  show ?thesis
    unfolding out again by (simp add: isNaN_def)
qed

lemma firstValidValue_None_all:
  "firstValidValue h vs = None \<Longrightarrow> v \<in> set vs \<Longrightarrow> isNaN (Number h v)"
  by (induction vs) (auto split: if_splits)

lemma rebaseSingleAxis_Some:
  "firstValue ys = Some first \<Longrightarrow>
     rebaseSingleAxis True ys = map (\<lambda>val. if isNaN val then Fin 0 else js_sub val first) ys"
  by (cases ys) (auto simp: rebaseSingleAxis_def)

text \<open>
  C6.  The two zero-baselining policies, each at its call site.  The standalone utility
  \<open>makeRelativeToZero\<close> (called by the ungrouped dual-axis branch) returns an entry that
  is not numeric as it is and shifts a numeric one by the first valid value.  The step
  written in line in the single-axis branches, once it has found a first valid value,
  puts \<open>0\<close> in the place of an entry that is not numeric and shifts the others; so
  does the step of the grouped dual-axis branch, whose baseline is the element at
  index 0.
\<close>

theorem zero_baselining_policies:
  "(\<forall>i. i < length vs \<and> isNaN (Number h (vs ! i)) \<longrightarrow> makeRelativeToZero h vs ! i = vs ! i)
   \<and> (\<forall>b i. firstValidValue h vs = Some b \<and> i < length vs \<and> \<not> isNaN (Number h (vs ! i))
        \<longrightarrow> makeRelativeToZero h vs ! i = JNum (js_sub (Number h (vs ! i)) b))
   \<and> (\<forall>first i. firstValue ys = Some first \<and> i < length ys
        \<longrightarrow> rebaseSingleAxis True ys ! i
              = (if isNaN (ys ! i) then Fin 0 else js_sub (ys ! i) first))
   \<and> (\<forall>i. ys \<noteq> [] \<and> \<not> isNaN (ys ! 0) \<and> i < length ys
        \<longrightarrow> rebaseDualAxis True ys ! i
              = (if isNaN (ys ! i) then Fin 0 else js_sub (ys ! i) (ys ! 0)))
   \<and> (relativeToZero cfg \<longrightarrow>
        trace_y (dualAxisUngrouped h cfg filteredData ! 0)
          = makeRelativeToZero h (map JNum (yValuesOf h (selectedY cfg) filteredData))
        \<and> trace_y (hd (singleAxisUngrouped h cfg filteredData))
          = map JNum (rebaseSingleAxis True (yValuesOf h (selectedY cfg) filteredData)))"
proof (intro conjI allI impI)
  fix i assume "i < length vs \<and> isNaN (Number h (vs ! i))"
  then show "makeRelativeToZero h vs ! i = vs ! i"
    by (cases "firstValidValue h vs")
      (simp_all add: makeRelativeToZero_None makeRelativeToZero_Some rebase_def)
next
  fix b i assume "firstValidValue h vs = Some b \<and> i < length vs \<and> \<not> isNaN (Number h (vs ! i))"
  then show "makeRelativeToZero h vs ! i = JNum (js_sub (Number h (vs ! i)) b)"
    by (simp add: makeRelativeToZero_Some rebase_def)
next
  fix first i assume "firstValue ys = Some first \<and> i < length ys"
  then show "rebaseSingleAxis True ys ! i = (if isNaN (ys ! i) then Fin 0 else js_sub (ys ! i) first)"
    by (simp add: rebaseSingleAxis_Some)
next
  fix i assume "ys \<noteq> [] \<and> \<not> isNaN (ys ! 0) \<and> i < length ys"
  then show "rebaseDualAxis True ys ! i
      = (if isNaN (ys ! i) then Fin 0 else js_sub (ys ! i) (ys ! 0))"
    by (simp add: rebaseDualAxis_def Let_def)
next
  assume "relativeToZero cfg"
  then show "trace_y (dualAxisUngrouped h cfg filteredData ! 0)
      = makeRelativeToZero h (map JNum (yValuesOf h (selectedY cfg) filteredData))"
    by (simp add: dualAxisUngrouped_def Let_def)
next
  assume "relativeToZero cfg"
  then show "trace_y (hd (singleAxisUngrouped h cfg filteredData))
      = map JNum (rebaseSingleAxis True (yValuesOf h (selectedY cfg) filteredData))"
    by (simp add: singleAxisUngrouped_def Let_def)
qed

lemma example_yValues:
  "yValuesOf plainHost ''v'' exampleRows = [Fin 10, Fin 20, Fin 30]"
  "yValuesOf plainHost ''w'' exampleRows = [Fin (3/2), Fin (5/2)]"
  by (simp_all add: yValuesOf_def exampleRows_def getCell_def plainHost_eval isNaN_def)

lemma example_xValues:
  "xValuesOf plainHost exampleConfig exampleRows
     = [ValidDate 1704067200000, ValidDate 1704153600000, ValidDate 1704240000000]"
  by (simp add: xValuesOf_def exampleRows_def exampleConfig_def getCell_def convertTimestamp_def
      isString_def isNaN_def plainHost_def)

theorem zero_baselining_policies_witness:
  "makeRelativeToZero plainHost [JStr ''x'', JNum (Fin 5), JNum (Fin 7)]
     = [JStr ''x'', JNum (Fin 0), JNum (Fin 2)]
   \<and> rebaseSingleAxis True [NaN, Fin 5, Fin 7] = [Fin 0, Fin 0, Fin 2]
   \<and> rebaseDualAxis True [Fin 5, NaN, Fin 7] = [Fin 0, Fin 0, Fin 2]
   \<and> relativeToZero exampleConfig
   \<and> trace_y (dualAxisUngrouped plainHost exampleConfig exampleRows ! 0)
       = [JNum (Fin 0), JNum (Fin 10), JNum (Fin 20)]
   \<and> trace_y (hd (singleAxisUngrouped plainHost exampleConfig exampleRows))
       = [JNum (Fin 0), JNum (Fin 10), JNum (Fin 20)]"
proof -
  have nx: "stringToNumber plainHost ''x'' = NaN" by (simp add: plainHost_eval)
  have a: "makeRelativeToZero plainHost [JStr ''x'', JNum (Fin 5), JNum (Fin 7)]
     = [JStr ''x'', JNum (Fin 0), JNum (Fin 2)]"
    by (simp add: makeRelativeToZero_def nx isNaN_def js_sub_def asciiWhiteSpace_def)
  have b: "rebaseSingleAxis True [NaN, Fin 5, Fin 7] = [Fin 0, Fin 0, Fin 2]"
    by (simp add: rebaseSingleAxis_def isNaN_def js_sub_def)
  have b': "rebaseDualAxis True [Fin 5, NaN, Fin 7] = [Fin 0, Fin 0, Fin 2]"
    by (simp add: rebaseDualAxis_def isNaN_def js_sub_def)
  have c: "relativeToZero exampleConfig" "selectedY exampleConfig = ''v''"
    by (simp_all add: exampleConfig_def)
  have d: "makeRelativeToZero plainHost [JNum (Fin 10), JNum (Fin 20), JNum (Fin 30)]
     = [JNum (Fin 0), JNum (Fin 10), JNum (Fin 20)]"
    by (simp add: makeRelativeToZero_def isNaN_def js_sub_def)
  have e: "rebaseSingleAxis True [Fin 10, Fin 20, Fin 30] = [Fin 0, Fin 10, Fin 20]"
    by (simp add: rebaseSingleAxis_def isNaN_def js_sub_def)
  show ?thesis
    using zero_baselining_policies [of "[JStr ''x'', JNum (Fin 5), JNum (Fin 7)]" plainHost
        "[NaN, Fin 5, Fin 7]" exampleConfig exampleRows]
    by (simp add: a b b' c d e example_yValues)
qed

text \<open>
  C10.  The validity test of the standalone zero-baseliner, \<open>!isNaN(Number(v))\<close>, accepts
  the empty string and \<open>null\<close> as the number 0: a sequence that starts with either has
  baseline 0, that element is not skipped, and every later numeric entry is shifted by 0.
\<close>

theorem empty_string_and_null_are_valid_baselines:
  "firstValidValue h (JStr [] # rest) = Some (Fin 0)
   \<and> firstValidValue h (JNull # rest) = Some (Fin 0)
   \<and> \<not> isNaN (Number h (JStr [])) \<and> \<not> isNaN (Number h JNull)
   \<and> makeRelativeToZero h (JStr [] # rest) =
       JNum (Fin 0) # map (\<lambda>val. if isNaN (Number h val) then val else JNum (Number h val)) rest
   \<and> makeRelativeToZero h (JNull # rest) =
       JNum (Fin 0) # map (\<lambda>val. if isNaN (Number h val) then val else JNum (Number h val)) rest"
  by (simp add: makeRelativeToZero_def isNaN_def js_sub_zero)

section \<open>The point-count smoother\<close>


lemma length_movingAverage: "length (movingAverage data w) = length data"
  by (simp add: movingAverage_def)










section \<open>The time-based smoother\<close>

lemma hoursToMs_eq: "hoursToMs hours = js_mul hours (Fin 3600000)"
  by (cases hours) (auto simp: hoursToMs_def js_mul_def signedInf_def signedZero_def)

lemma length_timeBasedMovingAverage: "length (timeBasedMovingAverage pts hours) = length pts"
  by (simp add: timeBasedMovingAverage_def)

lemma timeBasedMovingAverage_nth:
  "i < length pts \<Longrightarrow>
     timeBasedMovingAverage pts hours ! i =
       (if windowOf pts hours i = [] then val (pts ! i) else Some (meanOf (windowOf pts hours i)))"
  by (simp add: timeBasedMovingAverage_def windowOf_def meanOf_def Let_def)

lemma filter_enumerate_prefix:
  "filter (\<lambda>(j, p). j \<le> i \<and> Q p) (enumerate 0 pts)
     = filter (\<lambda>(j, p). Q p) (enumerate 0 (take (Suc i) pts))"
proof -
  have split: "enumerate 0 pts
      = enumerate 0 (take (Suc i) pts) @ enumerate (length (take (Suc i) pts)) (drop (Suc i) pts)"
    using enumerate_append_eq [of 0 "take (Suc i) pts" "drop (Suc i) pts"] by simp
  have front: "filter (\<lambda>(j, p). j \<le> i \<and> Q p) (enumerate 0 (take (Suc i) pts))
      = filter (\<lambda>(j, p). Q p) (enumerate 0 (take (Suc i) pts))"
    by (rule filter_cong) (auto simp: in_set_enumerate_eq)
  have rest: "filter (\<lambda>(j, p). j \<le> i \<and> Q p)
      (enumerate (length (take (Suc i) pts)) (drop (Suc i) pts)) = []"
    by (auto simp: filter_empty_conv in_set_enumerate_eq)
  show ?thesis
    by (subst split) (simp only: filter_append front rest append_Nil2)
qed

lemma windowOf_take:
  assumes "i < length pts"
  shows "windowOf (take (Suc i) pts) hours i = windowOf pts hours i"
proof -
  have same: "take (Suc i) pts ! i = pts ! i" using assms by simp
  have "windowOf (take (Suc i) pts) hours i
      = map snd (filter (\<lambda>(j, p). js_ge (getTime (timestamp p))
            (js_sub (getTime (timestamp (pts ! i))) (hoursToMs hours)))
          (enumerate 0 (take (Suc i) (take (Suc i) pts))))"
    unfolding windowOf_def same by (simp only: filter_enumerate_prefix)
  also have "\<dots> = windowOf pts hours i"
    unfolding windowOf_def by (simp only: filter_enumerate_prefix take_take min.idem)
  finally show ?thesis .
qed

lemma js_sub_NaN_left: "js_sub NaN b = NaN"
  by (simp add: js_sub_def)

lemma js_le_refl: "a \<noteq> NaN \<Longrightarrow> js_le a a"
  by (cases a) (simp_all add: js_le_def)

lemma closedWindow_eq:
  assumes srt: "sorted_wrt instantOrder pts" and i: "i < length pts"
  shows "closedWindowAverage pts hours i = timeBasedMovingAverage pts hours ! i"
proof -
  let ?ti = "getTime (timestamp (pts ! i))"
  let ?lo = "js_sub ?ti (hoursToMs hours)"
  have sel: "filter (\<lambda>(j, p). j \<le> i \<and> js_ge (getTime (timestamp p)) ?lo
                 \<and> js_le (getTime (timestamp p)) ?ti) (enumerate 0 pts)
      = filter (\<lambda>(j, p). j \<le> i \<and> js_ge (getTime (timestamp p)) ?lo) (enumerate 0 pts)"
  proof (rule filter_cong [OF refl])
    fix e assume mem: "e \<in> set (enumerate 0 pts)"
    define j where "j = fst e"
    have e: "e = (j, pts ! j)" and j: "j < length pts"
      using mem by (auto simp: in_set_enumerate_eq j_def prod_eq_iff)
    have "js_le (getTime (timestamp (pts ! j))) ?ti"
      if le: "j \<le> i" and ge: "js_ge (getTime (timestamp (pts ! j))) ?lo"
    proof (cases "j = i")
      case True
      from ge have "?lo \<noteq> NaN" by (simp add: js_ge_def js_le_def)
      then have "?ti \<noteq> NaN" using js_sub_NaN_left by metis
      then show ?thesis using True by (simp add: js_le_refl)
    next
      case False
      with le have "j < i" by simp
      then have "instantOrder (pts ! j) (pts ! i)"
        using srt i by (simp add: sorted_wrt_nth_less)
      then show ?thesis by (simp add: instantOrder_def)
    qed
    then show "(case e of (j, p) \<Rightarrow> j \<le> i \<and> js_ge (getTime (timestamp p)) ?lo
                 \<and> js_le (getTime (timestamp p)) ?ti)
        = (case e of (j, p) \<Rightarrow> j \<le> i \<and> js_ge (getTime (timestamp p)) ?lo)"
      by (auto simp: e)
  qed
  show ?thesis
    unfolding closedWindowAverage_def timeBasedMovingAverage_nth [OF i] windowOf_def meanOf_def
      hoursToMs_eq [symmetric] Let_def sel
    by simp
qed

text \<open>
  C3 (as amended).  The time-based smoother returns as many values as it is given
  points.  Its value at index \<open>i\<close> is computed from the points at indices up to \<open>i\<close> alone
  (it is the same on the input cut after \<open>i\<close>): among them it averages those whose
  instant is at or after \<open>instant_i - hours * 3600000\<close>, with no test against
  \<open>instant_i\<close> itself.  When the instants do not decrease along the sequence, that is
  the mean over the closed interval from \<open>instant_i - hours * 3600000\<close> to \<open>instant_i\<close>.
\<close>

theorem timeBasedMovingAverage_trailing:
  "length (timeBasedMovingAverage pts hours) = length pts
   \<and> (\<forall>i. i < length pts \<longrightarrow>
         timeBasedMovingAverage pts hours ! i
           = (if windowOf pts hours i = [] then val (pts ! i)
              else Some (meanOf (windowOf pts hours i))))
   \<and> (\<forall>i. i < length pts \<longrightarrow>
         timeBasedMovingAverage pts hours ! i
           = timeBasedMovingAverage (take (Suc i) pts) hours ! i)
   \<and> (sorted_wrt instantOrder pts \<longrightarrow>
        (\<forall>i. i < length pts \<longrightarrow>
           timeBasedMovingAverage pts hours ! i = closedWindowAverage pts hours i))"
proof (intro conjI allI impI)
  show "length (timeBasedMovingAverage pts hours) = length pts"
    by (rule length_timeBasedMovingAverage)
next
  fix i assume "i < length pts"
  then show "timeBasedMovingAverage pts hours ! i
      = (if windowOf pts hours i = [] then val (pts ! i)
         else Some (meanOf (windowOf pts hours i)))"
    by (rule timeBasedMovingAverage_nth)
next
  fix i assume i: "i < length pts"
  then have i': "i < length (take (Suc i) pts)" by simp
  show "timeBasedMovingAverage pts hours ! i = timeBasedMovingAverage (take (Suc i) pts) hours ! i"
    unfolding timeBasedMovingAverage_nth [OF i] timeBasedMovingAverage_nth [OF i']
      windowOf_take [OF i]
    using i by simp
next
  fix i assume "sorted_wrt instantOrder pts" "i < length pts"
  then show "timeBasedMovingAverage pts hours ! i = closedWindowAverage pts hours i"
    by (simp add: closedWindow_eq)
qed

lemmas smoother_eval = timeBasedMovingAverage_def closedWindowAverage_def Let_def
  enumerate_eq_zip upt_rec hoursToMs_def js_mul_def js_sub_def js_ge_def js_le_def js_gt_def
  plusValue_def js_div_def numOfNat_def signedZero_def instantOrder_def

theorem timeBasedMovingAverage_trailing_witness:
  "sorted_wrt instantOrder orderedPoints
   \<and> timeBasedMovingAverage orderedPoints (Fin 1) = [Some (Fin 10), Some (Fin 15), Some (Fin 40)]
   \<and> windowOf orderedPoints (Fin 1) 2 = [orderedPoints ! 1, orderedPoints ! 2]
   \<and> timeBasedMovingAverage (take (Suc 1) orderedPoints) (Fin 1) ! 1 = Some (Fin 15)
   \<and> closedWindowAverage orderedPoints (Fin 1) 1 = Some (Fin 15)
   \<and> closedWindowAverage orderedPoints (Fin 1) 2 = Some (Fin 40)"
proof -
  have srt: "sorted_wrt instantOrder orderedPoints"
    by (simp add: orderedPoints_def instantOrder_def js_le_def)
  have out: "timeBasedMovingAverage orderedPoints (Fin 1)
      = [Some (Fin 10), Some (Fin 15), Some (Fin 40)]"
    by (simp add: orderedPoints_def smoother_eval)
  have len: "(1::nat) < length orderedPoints" "(2::nat) < length orderedPoints"
    by (simp_all add: orderedPoints_def)
  note laws = timeBasedMovingAverage_trailing [of orderedPoints "Fin 1"]
  from laws len(1)
  have "timeBasedMovingAverage orderedPoints (Fin 1) ! 1
      = timeBasedMovingAverage (take (Suc 1) orderedPoints) (Fin 1) ! 1"
    by blast
  then have cut: "timeBasedMovingAverage (take (Suc 1) orderedPoints) (Fin 1) ! 1 = Some (Fin 15)"
    by (simp add: out)
  from laws srt len
  have "timeBasedMovingAverage orderedPoints (Fin 1) ! 1 = closedWindowAverage orderedPoints (Fin 1) 1"
    "timeBasedMovingAverage orderedPoints (Fin 1) ! 2 = closedWindowAverage orderedPoints (Fin 1) 2"
    by blast+
  then have closed: "closedWindowAverage orderedPoints (Fin 1) 1 = Some (Fin 15)"
    "closedWindowAverage orderedPoints (Fin 1) 2 = Some (Fin 40)"
    by (simp_all add: out)
  have win: "windowOf orderedPoints (Fin 1) 2 = [orderedPoints ! 1, orderedPoints ! 2]"
    by (simp add: windowOf_def orderedPoints_def smoother_eval)
  show ?thesis
    using srt out cut closed win by simp
qed

text \<open>
  C3 as stated lets no point whose instant is later than \<open>instant_i\<close> contribute to the
  output at \<open>i\<close>.  Rows keep their file order, so an earlier index can carry a later
  instant: the point at index 0 below is ten hours after the point at index 1, and with
  a window of one hour it is averaged into the output at index 1 all the same.
\<close>

theorem timeBasedMovingAverage_unordered_counterexample:
  "js_gt (getTime (timestamp (unorderedPoints ! 0))) (getTime (timestamp (unorderedPoints ! 1)))
   \<and> timeBasedMovingAverage unorderedPoints (Fin 1) ! 1 = Some (Fin 50)
   \<and> closedWindowAverage unorderedPoints (Fin 1) 1 = Some (Fin 0)
   \<and> timeBasedMovingAverage unorderedPoints (Fin 1) ! 1
       \<noteq> closedWindowAverage unorderedPoints (Fin 1) 1"
proof -
  have code: "timeBasedMovingAverage unorderedPoints (Fin 1)
      = [Some (Fin 100), Some (Fin 50), Some (Fin (100 / 3))]"
    by (simp add: unorderedPoints_def smoother_eval)
  have spec: "closedWindowAverage unorderedPoints (Fin 1) 1 = Some (Fin 0)"
    by (simp add: unorderedPoints_def smoother_eval)
  have later: "js_gt (getTime (timestamp (unorderedPoints ! 0)))
      (getTime (timestamp (unorderedPoints ! 1)))"
    by (simp add: unorderedPoints_def js_gt_def)
  show ?thesis
    unfolding code spec using later by simp
qed

section \<open>Sorting and the statistics engine\<close>

lemma compare_gt: "a \<noteq> NaN \<Longrightarrow> b \<noteq> NaN \<Longrightarrow> js_gt (js_sub a b) (Fin 0) = js_lt b a"
  by (cases a; cases b) (auto simp: js_gt_def js_sub_def)

lemma js_le_trans: "js_le a b \<Longrightarrow> js_le b c \<Longrightarrow> js_le a c"
  by (cases a; cases b; cases c) (auto simp: js_le_def)

lemma js_lt_imp_le: "js_lt a b \<Longrightarrow> js_le a b"
  by (cases a; cases b) (auto simp: js_le_def)

lemma not_js_lt_imp_le: "a \<noteq> NaN \<Longrightarrow> b \<noteq> NaN \<Longrightarrow> \<not> js_lt b a \<Longrightarrow> js_le a b"
  by (simp add: js_le_def)

lemma mset_js_insort: "mset (js_insort a bs) = add_mset a (mset bs)"
  by (induction bs) auto

lemma mset_js_sort: "mset (js_sort xs) = mset xs"
  by (induction xs) (simp_all add: js_sort_def mset_js_insort)

lemma set_js_insort: "set (js_insort a bs) = insert a (set bs)"
  by (induction bs) auto

lemma set_js_sort: "set (js_sort xs) = set xs"
  using mset_js_sort [of xs] by (metis set_mset_mset)

lemma length_js_sort: "length (js_sort xs) = length xs"
  using mset_js_sort [of xs] by (metis size_mset)

lemma sorted_js_insort:
  assumes "a \<noteq> NaN" "NaN \<notin> set bs" "sorted_wrt js_le bs"
  shows "sorted_wrt js_le (js_insort a bs)"
  using assms
proof (induction bs)
  case Nil
  then show ?case by simp
next
  case (Cons b bs)
  then have b: "b \<noteq> NaN" and rest: "NaN \<notin> set bs" and srt: "sorted_wrt js_le bs"
    and bb: "\<forall>c\<in>set bs. js_le b c" by auto
  show ?case
  proof (cases "js_lt b a")
    case True
    then have "js_le b a" by (rule js_lt_imp_le)
    then show ?thesis
      using True Cons.IH [OF Cons.prems(1) rest srt] bb b Cons.prems(1)
      by (simp add: compare_gt set_js_insort)
  next
    case False
    then have ab: "js_le a b" using Cons.prems(1) b by (simp add: js_le_def)
    then have "\<forall>c\<in>set bs. js_le a c" using bb js_le_trans by blast
    then show ?thesis
      using False ab Cons.prems b by (simp add: compare_gt)
  qed
qed

lemma sorted_js_sort: "NaN \<notin> set xs \<Longrightarrow> sorted_wrt js_le (js_sort xs)"
proof (induction xs)
  case Nil
  then show ?case by (simp add: js_sort_def)
next
  case (Cons x xs)
  then have "sorted_wrt js_le (js_sort xs)" "x \<noteq> NaN" "NaN \<notin> set (js_sort xs)"
    by (auto simp: set_js_sort)
  then have "sorted_wrt js_le (js_insort x (js_sort xs))" by (simp add: sorted_js_insort)
  then show ?case by (simp add: js_sort_def)
qed

lemma js_insort_Fin: "js_insort (Fin x) (map Fin ys) = map Fin (insort x ys)"
  by (induction ys) (auto simp: compare_gt)

lemma js_sort_Fin: "js_sort (map Fin xs) = map Fin (sort xs)"
proof (induction xs)
  case Nil
  then show ?case by (simp add: js_sort_def)
next
  case (Cons x xs)
  then have "js_sort (map Fin (x # xs)) = js_insort (Fin x) (map Fin (sort xs))"
    by (simp add: js_sort_def)
  then show ?case by (simp add: js_insort_Fin)
qed

lemma floor_half: "nat \<lfloor>real n / 2\<rfloor> = n div 2"
  by (metis floor_divide_of_nat_eq nat_int of_nat_numeral)

lemma floor_quarter: "nat \<lfloor>real n * 0.25\<rfloor> = n div 4"
proof -
  have "real n * 0.25 = real n / 4" by simp
  then show ?thesis by (metis floor_divide_of_nat_eq nat_int of_nat_numeral)
qed

lemma floor_three_quarters: "nat \<lfloor>real n * 0.75\<rfloor> = (3 * n) div 4"
proof -
  have "real n * 0.75 = real (3 * n) / 4" by simp
  then show ?thesis by (metis floor_divide_of_nat_eq nat_int of_nat_numeral)
qed

lemma median_calculateStatistics: "data \<noteq> [] \<Longrightarrow> median (calculateStatistics data) = toFixed4 (js_sort data ! (length data div 2))"
  by (simp add: calculateStatistics_def Let_def floor_half length_js_sort)




lemmas stats_eval = js_sort_def js_gt_def js_sub_def toFixed4_def fixedValue_def

text \<open>
  C9.  For a non-empty sequence the median of the statistics engine is the element at
  index \<open>floor(N/2)\<close> of the sorted copy, rendered by \<open>toFixed(4)\<close>; the sorted copy is
  ascending and a permutation of the data when the data has no \<open>NaN\<close>, and on finite
  numbers it is the sorted list of the reals.  The median of 1, 2, 3, 4 is 3 and not
  2.5.  For the empty sequence every field is the number 0.
\<close>

theorem median_is_upper_middle:
  "(data \<noteq> [] \<longrightarrow>
       median (calculateStatistics data) = toFixed4 (js_sort data ! (length data div 2))
       \<and> count' (calculateStatistics data) = length data)
   \<and> (NaN \<notin> set data \<longrightarrow> sorted_wrt js_le (js_sort data) \<and> mset (js_sort data) = mset data)
   \<and> (xs \<noteq> [] \<longrightarrow>
       median (calculateStatistics (map Fin xs)) = toFixed4 (Fin (sort xs ! (length xs div 2))))
   \<and> median (calculateStatistics [Fin 1, Fin 2, Fin 3, Fin 4]) = StatFixed4 (Fin 3)
   \<and> median (calculateStatistics [Fin 1, Fin 2, Fin 3, Fin 4]) \<noteq> StatFixed4 (Fin 2.5)
   \<and> calculateStatistics [] =
       \<lparr>mean = StatNumber (Fin 0), stdDev = StatNumber (Fin 0), min' = StatNumber (Fin 0),
        max' = StatNumber (Fin 0), median = StatNumber (Fin 0), count' = 0\<rparr>"
proof -
  have general: "median (calculateStatistics data) = toFixed4 (js_sort data ! (length data div 2))
      \<and> count' (calculateStatistics data) = length data" if "data \<noteq> []"
    using that by (simp add: median_calculateStatistics) (simp add: calculateStatistics_def Let_def)
  have order: "sorted_wrt js_le (js_sort data) \<and> mset (js_sort data) = mset data"
    if "NaN \<notin> set data"
    using that by (simp add: sorted_js_sort mset_js_sort)
  have reals: "median (calculateStatistics (map Fin xs)) = toFixed4 (Fin (sort xs ! (length xs div 2)))"
    if "xs \<noteq> []"
  proof -
    have "length xs div 2 < length (sort xs)" using that by (cases xs) simp_all
    then show ?thesis
      using that by (simp add: median_calculateStatistics js_sort_Fin)
  qed
  have four: "median (calculateStatistics [Fin 1, Fin 2, Fin 3, Fin 4]) = StatFixed4 (Fin 3)"
    by (simp add: median_calculateStatistics stats_eval)
  have none: "calculateStatistics [] =
       \<lparr>mean = StatNumber (Fin 0), stdDev = StatNumber (Fin 0), min' = StatNumber (Fin 0),
        max' = StatNumber (Fin 0), median = StatNumber (Fin 0), count' = 0\<rparr>"
    by (simp add: calculateStatistics_def)
  show ?thesis
    using general order reals none unfolding four by simp
qed

theorem median_is_upper_middle_witness:
  "[Fin 4, Fin 2, Fin 1, Fin 3] \<noteq> [] \<and> NaN \<notin> set [Fin 4, Fin 2, Fin 1, Fin 3]
   \<and> js_sort [Fin 4, Fin 2, Fin 1, Fin 3] = [Fin 1, Fin 2, Fin 3, Fin 4]
   \<and> sorted_wrt js_le (js_sort [Fin 4, Fin 2, Fin 1, Fin 3])
   \<and> median (calculateStatistics [Fin 4, Fin 2, Fin 1, Fin 3]) = StatFixed4 (Fin 3)
   \<and> median (calculateStatistics (map Fin [4, 2, 1, 3])) = toFixed4 (Fin (sort [4, 2, 1, 3] ! 2))
   \<and> count' (calculateStatistics [Fin 4, Fin 2, Fin 1, Fin 3]) = 4"
proof -
  have srt: "js_sort [Fin 4, Fin 2, Fin 1, Fin 3] = [Fin 1, Fin 2, Fin 3, Fin 4]"
    by (simp add: stats_eval)
  note laws = median_is_upper_middle [of "[Fin 4, Fin 2, Fin 1, Fin 3]" "[4, 2, 1, 3]"]
  from laws have "median (calculateStatistics [Fin 4, Fin 2, Fin 1, Fin 3])
      = toFixed4 (js_sort [Fin 4, Fin 2, Fin 1, Fin 3] ! (length [Fin 4, Fin 2, Fin 1, Fin 3] div 2))"
    by blast
  then have med: "median (calculateStatistics [Fin 4, Fin 2, Fin 1, Fin 3]) = StatFixed4 (Fin 3)"
    unfolding srt by (simp add: toFixed4_def fixedValue_def)
  have nn: "NaN \<notin> set [Fin 4, Fin 2, Fin 1, Fin 3]" by simp
  from laws nn have ord: "sorted_wrt js_le (js_sort [Fin 4, Fin 2, Fin 1, Fin 3])"
    by blast
  from laws have "count' (calculateStatistics [Fin 4, Fin 2, Fin 1, Fin 3])
      = length [Fin 4, Fin 2, Fin 1, Fin 3]"
    by blast
  then have cnt: "count' (calculateStatistics [Fin 4, Fin 2, Fin 1, Fin 3]) = 4"
    by simp
  from laws have "[4, 2, 1, 3 :: real] \<noteq> [] \<longrightarrow>
      median (calculateStatistics (map Fin [4, 2, 1, 3]))
        = toFixed4 (Fin (sort [4, 2, 1, 3] ! (length [4, 2, 1, 3 :: real] div 2)))"
    by blast
  then have re: "median (calculateStatistics (map Fin [4, 2, 1, 3]))
      = toFixed4 (Fin (sort [4, 2, 1, 3] ! 2))"
    by simp
  show ?thesis
    using srt med ord cnt re by simp
qed

section \<open>Outlier detection\<close>

lemma enumerate_as_map: "enumerate 0 xs = map (\<lambda>i. (i, xs ! i)) [0..<length xs]"
  by (rule nth_equalityI) (simp_all add: nth_enumerate_eq)

lemma map_filter_comprehension: "map f (filter P xs) = [f x. x \<leftarrow> xs, P x]"
  by (induction xs) simp_all

lemma detectOutliers_few: "length values < 4 \<Longrightarrow> detectOutliers values = []"
  by (simp add: detectOutliers_def)

lemma detectOutliers_general:
  assumes "4 \<le> length values"
  shows "detectOutliers values =
     [reported i (values ! i). i \<leftarrow> [0..<length values],
        js_lt (values ! i) (fst (outlierBounds values)) \<or> js_gt (values ! i) (snd (outlierBounds values))]"
proof -
  let ?lo = "fst (outlierBounds values)" and ?hi = "snd (outlierBounds values)"
  let ?mk = "\<lambda>(idx, v). \<lparr>index = idx, value' = v, isOutlier = (js_lt v ?lo \<or> js_gt v ?hi)\<rparr>"
  have unfold: "detectOutliers values = filter isOutlier (map ?mk (enumerate 0 values))"
    unfolding detectOutliers_def outlierBounds_def floor_quarter floor_three_quarters
      length_js_sort Let_def
    using assms by simp
  have "filter isOutlier (map ?mk (enumerate 0 values))
      = map ?mk (filter (\<lambda>e. isOutlier (?mk e)) (enumerate 0 values))"
    by (simp add: filter_map comp_def)
  also have "\<dots> = map ?mk (map (\<lambda>i. (i, values ! i))
        (filter (\<lambda>i. js_lt (values ! i) ?lo \<or> js_gt (values ! i) ?hi) [0..<length values]))"
    by (simp add: enumerate_as_map filter_map comp_def)
  also have "\<dots> = map (\<lambda>i. reported i (values ! i))
        (filter (\<lambda>i. js_lt (values ! i) ?lo \<or> js_gt (values ! i) ?hi) [0..<length values])"
    by (auto simp: reported_def)
  finally show ?thesis
    unfolding unfold by (simp only: map_filter_comprehension)
qed

lemma js_mul_pos_Fin: "0 < c \<Longrightarrow> js_mul (Fin c) (Fin d) = Fin (c * d)"
  by (simp add: js_mul_def signedZero_def)


lemma js_sub_Fin: "js_sub (Fin a) (Fin b) = Fin (a - b)"
  by (simp add: js_sub_def)

lemma outlierBounds_Fin:
  assumes "4 \<le> length xs"
  shows "outlierBounds (map Fin xs) = (Fin (lowerFence xs), Fin (upperFence xs))"
proof -
  have "length xs div 4 < length (sort xs)" "(3 * length xs) div 4 < length (sort xs)"
    using assms by simp_all
  then show ?thesis
    unfolding outlierBounds_def Let_def js_sort_Fin lowerFence_def upperFence_def
    by (simp add: js_sub_Fin js_mul_pos_Fin)
qed

lemma detectOutliers_Fin:
  assumes "4 \<le> length xs"
  shows "detectOutliers (map Fin xs) =
     [reported i (Fin (xs ! i)). i \<leftarrow> [0..<length xs],
        xs ! i < lowerFence xs \<or> upperFence xs < xs ! i]"
proof -
  have len: "4 \<le> length (map Fin xs)" using assms by simp
  show ?thesis
    unfolding detectOutliers_general [OF len] outlierBounds_Fin [OF assms] fst_conv snd_conv
      length_map
    by (intro arg_cong [where f = concat] map_cong) (auto simp: js_gt_def)
qed

lemma outliers_example:
  "detectOutliers [Fin 1, Fin 2, Fin 3, Fin 4, Fin 5, Fin 100] = [reported 5 (Fin 100)]"
  by (simp add: detectOutliers_def Let_def stats_eval js_mul_def enumerate_eq_zip upt_rec
      reported_def)

lemma fences_example:
  "sort [1, 2, 3, 4, 5, 100 :: real] ! (length [1, 2, 3, 4, 5, 100 :: real] div 4) = 2"
  "sort [1, 2, 3, 4, 5, 100 :: real] ! ((3 * length [1, 2, 3, 4, 5, 100 :: real]) div 4) = 5"
  "lowerFence [1, 2, 3, 4, 5, 100] = - 5 / 2"
  "upperFence [1, 2, 3, 4, 5, 100] = 19 / 2"
  by (simp_all add: lowerFence_def upperFence_def)

text \<open>
  C8.  With fewer than 4 values no outlier is reported.  With at least 4, the reported
  entries are exactly the values strictly below \<open>Q1 - 1.5 IQR\<close> or strictly above
  \<open>Q3 + 1.5 IQR\<close>, in their original order and each with its original index, where
  \<open>Q1\<close> and \<open>Q3\<close> are the elements at indices \<open>floor(0.25 N)\<close> and \<open>floor(0.75 N)\<close> of the
  sorted copy (ascending and a permutation of the values when none is \<open>NaN\<close>); on finite
  numbers these are the quartiles and bounds of the sorted list of reals.  On
  1, 2, 3, 4, 5, 100 the quartiles are 2 and 5, the upper bound is 9.5 and only 100, at
  index 5, is reported.
\<close>

theorem detectOutliers_iqr_rule:
  "(length values < 4 \<longrightarrow> detectOutliers values = [])
   \<and> (4 \<le> length values \<longrightarrow>
        detectOutliers values =
          [reported i (values ! i). i \<leftarrow> [0..<length values],
             js_lt (values ! i) (fst (outlierBounds values))
             \<or> js_gt (values ! i) (snd (outlierBounds values))])
   \<and> (NaN \<notin> set values \<longrightarrow>
        sorted_wrt js_le (js_sort values) \<and> mset (js_sort values) = mset values)
   \<and> (4 \<le> length xs \<longrightarrow>
        detectOutliers (map Fin xs) =
          [reported i (Fin (xs ! i)). i \<leftarrow> [0..<length xs],
             xs ! i < lowerFence xs \<or> upperFence xs < xs ! i])
   \<and> upperFence [1, 2, 3, 4, 5, 100] = 19 / 2
   \<and> detectOutliers [Fin 1, Fin 2, Fin 3, Fin 4, Fin 5, Fin 100] = [reported 5 (Fin 100)]"
  using detectOutliers_few [of "values"] detectOutliers_general [of "values"]
    sorted_js_sort [of "values"] mset_js_sort [of "values"] detectOutliers_Fin [of xs]
    fences_example(4) outliers_example
  by (intro conjI impI) assumption+

theorem detectOutliers_iqr_rule_witness:
  "length [Fin 1, Fin 2, Fin 300] < 4
   \<and> detectOutliers [Fin 1, Fin 2, Fin 300] = []
   \<and> 4 \<le> length [Fin 1, Fin 2, Fin 3, Fin 4, Fin 5, Fin 100]
   \<and> NaN \<notin> set [Fin 1, Fin 2, Fin 3, Fin 4, Fin 5, Fin 100]
   \<and> outlierBounds [Fin 1, Fin 2, Fin 3, Fin 4, Fin 5, Fin 100] = (Fin (- 5 / 2), Fin (19 / 2))
   \<and> sorted_wrt js_le (js_sort [Fin 1, Fin 2, Fin 3, Fin 4, Fin 5, Fin 100])
   \<and> detectOutliers (map Fin [1, 2, 3, 4, 5, 100]) = [reported 5 (Fin 100)]"
proof -
  have "length [Fin 1, Fin 2, Fin 300] < 4 \<longrightarrow> detectOutliers [Fin 1, Fin 2, Fin 300] = []"
    by (rule detectOutliers_iqr_rule [of "[Fin 1, Fin 2, Fin 300]" "[]", THEN conjunct1])
  then have none: "detectOutliers [Fin 1, Fin 2, Fin 300] = []" by simp
  note six = detectOutliers_iqr_rule [of "[Fin 1, Fin 2, Fin 3, Fin 4, Fin 5, Fin 100]"
      "[1, 2, 3, 4, 5, 100]"]
  have nn: "NaN \<notin> set [Fin 1, Fin 2, Fin 3, Fin 4, Fin 5, Fin 100]" by simp
  from six [THEN conjunct2, THEN conjunct2, THEN conjunct1] nn
  have ord: "sorted_wrt js_le (js_sort [Fin 1, Fin 2, Fin 3, Fin 4, Fin 5, Fin 100])"
    by blast
  have len: "4 \<le> length [1, 2, 3, 4, 5, 100 :: real]" by simp
  from outlierBounds_Fin [OF len]
  have bounds: "outlierBounds [Fin 1, Fin 2, Fin 3, Fin 4, Fin 5, Fin 100]
      = (Fin (- 5 / 2), Fin (19 / 2))"
    by (simp add: fences_example)
  have "detectOutliers [Fin 1, Fin 2, Fin 3, Fin 4, Fin 5, Fin 100] = [reported 5 (Fin 100)]"
    by (rule six [THEN conjunct2, THEN conjunct2, THEN conjunct2, THEN conjunct2, THEN conjunct2])
  then show ?thesis
    using none nn ord bounds by simp
qed

section \<open>The pattern detector and the rounded statistics\<close>

lemma round_error:
  fixes y :: real
  shows "\<bar>of_int \<lfloor>y * 10000 + 1 / 2\<rfloor> / 10000 - y\<bar> \<le> 1 / 20000"
proof -
  let ?n = "\<lfloor>y * 10000 + 1 / 2\<rfloor>"
  have bounds: "of_int ?n \<le> y * 10000 + 1 / 2" "y * 10000 + 1 / 2 < of_int ?n + 1"
    by linarith+
  define d where "d = of_int ?n - y * 10000"
  with bounds have small: "\<bar>d\<bar> \<le> 1 / 2" by linarith
  have eq: "of_int ?n / 10000 - y = d / 10000"
    by (simp add: d_def diff_divide_distrib)
  have "\<bar>d / 10000\<bar> = \<bar>d\<bar> / 10000" by simp
  with small show ?thesis unfolding eq by linarith
qed

lemma fixedValue_error:
  assumes "isFiniteNum a"
  shows "isFiniteNum (fixedValue a) \<and> \<bar>realOf (fixedValue a) - realOf a\<bar> \<le> 1 / 20000"
proof (cases a)
  case (Fin x)
  show ?thesis
  proof (cases "\<bar>x\<bar> \<ge> 10 ^ 21")
    case True
    then show ?thesis by (simp add: Fin fixedValue_def)
  next
    case False
    note e = round_error [of "\<bar>x\<bar>"]
    show ?thesis
    proof (cases "x < 0")
      case True
      then have "\<bar>- (of_int \<lfloor>\<bar>x\<bar> * 10000 + 1 / 2\<rfloor> / 10000) - x\<bar> \<le> 1 / 20000"
        using e by linarith
      then show ?thesis
        using True False by (auto simp: Fin fixedValue_def Let_def)
    next
      case nonneg: False
      then show ?thesis
        using e False by (auto simp: Fin fixedValue_def Let_def)
    qed
  qed
qed (use assms in \<open>simp_all add: fixedValue_def\<close>)

lemma realOf_js_sub:
  "isFiniteNum a \<Longrightarrow> isFiniteNum b \<Longrightarrow> isFiniteNum (js_sub a b) \<and> realOf (js_sub a b) = realOf a - realOf b"
  by (cases a; cases b) (auto simp: js_sub_def)

lemma statistics_fields:
  assumes "values \<noteq> []"
  shows "mean (calculateStatistics values) = StatFixed4 (fixedValue (meanOfData values))"
    "stdDev (calculateStatistics values) = StatFixed4 (fixedValue (stdDevOfData values))"
    "min' (calculateStatistics values) = StatFixed4 (fixedValue (Math_min values))"
    "max' (calculateStatistics values) = StatFixed4 (fixedValue (Math_max values))"
  using assms by (simp_all add: calculateStatistics_def Let_def toFixed4_def)

lemma range_patternOf:
  "values \<noteq> [] \<Longrightarrow> range' (patternOf values) = js_sub (fixedValue (Math_max values)) (fixedValue (Math_min values))"
  by (simp add: patternOf_def Let_def statistics_fields)

lemma volatility_patternOf:
  "values \<noteq> [] \<Longrightarrow> volatility (patternOf values)
     = volatilityOf (js_div (fixedValue (stdDevOfData values)) (fixedValue (meanOfData values)))"
  by (simp add: patternOf_def Let_def statistics_fields volatilityOf_def)

lemma range_error:
  assumes ne: "values \<noteq> []" and fin: "\<forall>v\<in>set values. isFiniteNum v"
  shows "\<bar>realOf (range' (patternOf values)) - (realOf (Math_max values) - realOf (Math_min values))\<bar> \<le> 1 / 10000"
proof -
  have mx: "isFiniteNum (Math_max values)" and mn: "isFiniteNum (Math_min values)"
    using Math_max_finite [OF ne fin] Math_min_finite [OF ne fin] by simp_all
  note ex = fixedValue_error [OF mx] and en = fixedValue_error [OF mn]
  have "realOf (range' (patternOf values))
      = realOf (fixedValue (Math_max values)) - realOf (fixedValue (Math_min values))"
    using realOf_js_sub ex en by (simp add: range_patternOf [OF ne])
  then show ?thesis using ex en by linarith
qed

lemma detectDataPatterns_single:
  "detectDataPatterns h data [col] col =
     (if yValuesOf h col data = [] then None else Some (patternOf (yValuesOf h col data)))"
  by (simp add: detectDataPatterns_def Let_def)

lemma smallValues_of_rows: "yValuesOf plainHost ''v'' smallValueRows = smallValues"
  by (simp add: yValuesOf_def smallValueRows_def smallValues_def getCell_def plainHost_eval
      isNaN_def)

lemma nearTwoValues_of_rows: "yValuesOf plainHost ''v'' nearTwoRows = nearTwoValues"
  by (simp add: yValuesOf_def nearTwoRows_def nearTwoValues_def getCell_def plainHost_eval
      isNaN_def)

lemma smallValues_range:
  "range' (patternOf smallValues) = Fin 1"
  "fullPrecisionRange smallValues = Fin (99996 / 100000)"
  by (simp_all add: range_patternOf fullPrecisionRange_def smallValues_def Math_max_def
      Math_min_def js_max2_def js_min2_def fixedValue_def js_sub_def)

lemma nearTwoValues_mean: "meanOfData nearTwoValues = Fin (199996 / 100000)"
  by (simp add: nearTwoValues_def meanOfData_def js_div_def numOfNat_def)

lemma nearTwoValues_stdDev: "stdDevOfData nearTwoValues = Fin 1"
  unfolding stdDevOfData_def varianceOfData_def nearTwoValues_mean
  by (simp add: nearTwoValues_def Math_pow2_def js_mul_def js_sub_def js_div_def numOfNat_def
      Math_sqrt_def)

lemma nearTwoValues_volatility:
  "volatility (patternOf nearTwoValues) = ''medium''"
  "fullPrecisionVolatility nearTwoValues = ''high''"
proof -
  have ne: "nearTwoValues \<noteq> []" by (simp add: nearTwoValues_def)
  show "volatility (patternOf nearTwoValues) = ''medium''"
    unfolding volatility_patternOf [OF ne] nearTwoValues_mean nearTwoValues_stdDev
    by (simp add: fixedValue_def volatilityOf_def js_div_def js_gt_def)
  show "fullPrecisionVolatility nearTwoValues = ''high''"
    unfolding fullPrecisionVolatility_def nearTwoValues_mean nearTwoValues_stdDev
    by (simp add: volatilityOf_def js_div_def js_gt_def)
qed

text \<open>
  C2 (as amended).  The statistics engine itself rounds: each of its five statistics is
  the \<open>toFixed(4)\<close> string of the full-precision value, and no unrounded value leaves
  it.  The pattern detector reads those strings back: its range is the rounded maximum
  minus the rounded minimum, and its volatility is the class of the rounded standard
  deviation over the rounded mean.  On finite values the range is within \<open>0.0001\<close> of
  the full-precision one.
\<close>

theorem pattern_detector_reads_rounded_statistics:
  assumes "values \<noteq> []"
  shows "mean (calculateStatistics values) = StatFixed4 (fixedValue (meanOfData values))
     \<and> stdDev (calculateStatistics values) = StatFixed4 (fixedValue (stdDevOfData values))
     \<and> min' (calculateStatistics values) = StatFixed4 (fixedValue (Math_min values))
     \<and> max' (calculateStatistics values) = StatFixed4 (fixedValue (Math_max values))
     \<and> median (calculateStatistics values)
         = StatFixed4 (fixedValue (js_sort values ! (length values div 2)))
     \<and> range' (patternOf values)
         = js_sub (fixedValue (Math_max values)) (fixedValue (Math_min values))
     \<and> volatility (patternOf values)
         = volatilityOf (js_div (fixedValue (stdDevOfData values)) (fixedValue (meanOfData values)))
     \<and> ((\<forall>v\<in>set values. isFiniteNum v) \<longrightarrow>
          \<bar>realOf (range' (patternOf values))
             - (realOf (Math_max values) - realOf (Math_min values))\<bar> \<le> 1 / 10000)
     \<and> (yValuesOf h col data = values \<longrightarrow>
          detectDataPatterns h data [col] col = Some (patternOf values))"
proof -
  have med: "median (calculateStatistics values)
      = StatFixed4 (fixedValue (js_sort values ! (length values div 2)))"
    using assms by (simp add: median_calculateStatistics toFixed4_def)
  have err: "(\<forall>v\<in>set values. isFiniteNum v) \<longrightarrow>
      \<bar>realOf (range' (patternOf values))
         - (realOf (Math_max values) - realOf (Math_min values))\<bar> \<le> 1 / 10000"
    using range_error [OF assms] by blast
  have one: "yValuesOf h col data = values \<longrightarrow>
      detectDataPatterns h data [col] col = Some (patternOf values)"
    using assms by (simp add: detectDataPatterns_single)
  show ?thesis
    using statistics_fields [OF assms] med range_patternOf [OF assms]
      volatility_patternOf [OF assms] err one
    by (intro conjI) assumption+
qed

theorem pattern_detector_reads_rounded_statistics_witness:
  "nearTwoValues \<noteq> []
   \<and> list_all isFiniteNum nearTwoValues
   \<and> yValuesOf plainHost ''v'' nearTwoRows = nearTwoValues
   \<and> detectDataPatterns plainHost nearTwoRows [''v''] ''v'' = Some (patternOf nearTwoValues)
   \<and> mean (calculateStatistics nearTwoValues) = StatFixed4 (Fin 2)
   \<and> range' (patternOf nearTwoValues) = Fin 2
   \<and> \<bar>realOf (range' (patternOf nearTwoValues))
        - (realOf (Math_max nearTwoValues) - realOf (Math_min nearTwoValues))\<bar> \<le> 1 / 10000"
proof -
  have ne: "nearTwoValues \<noteq> []" by (simp add: nearTwoValues_def)
  have fin: "\<forall>v\<in>set nearTwoValues. isFiniteNum v" by (simp add: nearTwoValues_def)
  note laws = pattern_detector_reads_rounded_statistics [OF ne, of plainHost "''v''" nearTwoRows]
  from laws have "mean (calculateStatistics nearTwoValues)
      = StatFixed4 (fixedValue (meanOfData nearTwoValues))"
    by (rule conjunct1)
  then have m: "mean (calculateStatistics nearTwoValues) = StatFixed4 (Fin 2)"
    unfolding nearTwoValues_mean by (simp add: fixedValue_def)
  from laws have "range' (patternOf nearTwoValues)
      = js_sub (fixedValue (Math_max nearTwoValues)) (fixedValue (Math_min nearTwoValues))"
    by blast
  then have r: "range' (patternOf nearTwoValues) = Fin 2"
    by (simp add: nearTwoValues_def Math_max_def Math_min_def js_max2_def js_min2_def
        fixedValue_def js_sub_def)
  from laws fin have e: "\<bar>realOf (range' (patternOf nearTwoValues))
        - (realOf (Math_max nearTwoValues) - realOf (Math_min nearTwoValues))\<bar> \<le> 1 / 10000"
    by blast
  from laws nearTwoValues_of_rows
  have d: "detectDataPatterns plainHost nearTwoRows [''v''] ''v'' = Some (patternOf nearTwoValues)"
    by blast
  show ?thesis
    using ne fin nearTwoValues_of_rows d m r e by (simp add: list_all_iff)
qed

text \<open>
  C2 as stated has the range and the coefficient of variation computed from the
  unrounded statistics.  For the values 0.00004 and 1 the detector's range is
  \<open>1.0000 - 0.0000 = 1\<close>, the full-precision range is 0.99996.  For the values 0.99996
  and 2.99996 the standard deviation is 1 and the mean 1.99996: the rounded quotient
  \<open>1 / 2\<close> is not above 0.5 (medium), the full-precision quotient is (high).
\<close>

theorem rounded_statistics_counterexample:
  "yValuesOf plainHost ''v'' smallValueRows = smallValues
   \<and> detectDataPatterns plainHost smallValueRows [''v''] ''v'' = Some (patternOf smallValues)
   \<and> range' (patternOf smallValues) = Fin 1
   \<and> fullPrecisionRange smallValues = Fin (99996 / 100000)
   \<and> range' (patternOf smallValues) \<noteq> fullPrecisionRange smallValues
   \<and> yValuesOf plainHost ''v'' nearTwoRows = nearTwoValues
   \<and> detectDataPatterns plainHost nearTwoRows [''v''] ''v'' = Some (patternOf nearTwoValues)
   \<and> volatility (patternOf nearTwoValues) = ''medium''
   \<and> fullPrecisionVolatility nearTwoValues = ''high''
   \<and> volatility (patternOf nearTwoValues) \<noteq> fullPrecisionVolatility nearTwoValues"
proof -
  have s: "smallValues \<noteq> []" and n: "nearTwoValues \<noteq> []"
    by (simp_all add: smallValues_def nearTwoValues_def)
  have ds: "detectDataPatterns plainHost smallValueRows [''v''] ''v'' = Some (patternOf smallValues)"
    using s by (simp add: detectDataPatterns_single smallValues_of_rows)
  have dn: "detectDataPatterns plainHost nearTwoRows [''v''] ''v'' = Some (patternOf nearTwoValues)"
    using n by (simp add: detectDataPatterns_single nearTwoValues_of_rows)
  show ?thesis
    unfolding ds dn smallValues_of_rows nearTwoValues_of_rows smallValues_range
      nearTwoValues_volatility
    by simp
qed

section \<open>Timestamp classification\<close>







section \<open>The traces\<close>

lemma length_xValuesOf: "length (xValuesOf h cfg rows) = length rows"
  by (simp add: xValuesOf_def)

lemma length_yValuesOf_le: "length (yValuesOf h col rows) \<le> length rows"
  by (simp add: yValuesOf_def)

lemma yValuesOf_numeric:
  "allCellsNumeric h col rows \<Longrightarrow> length (yValuesOf h col rows) = length rows"
  by (simp add: yValuesOf_def allCellsNumeric_def list_all_iff)

lemma yValuesOf_rows:
  "allCellsNumeric h col rows \<Longrightarrow> yValuesOf h col rows = map (\<lambda>r. parseFloat h (getCell r col)) rows"
  by (simp add: yValuesOf_def allCellsNumeric_def list_all_iff)

lemma length_rebaseSingleAxis: "length (rebaseSingleAxis b ys) = length ys"
  by (simp add: rebaseSingleAxis_def split: option.split)

lemma length_rebaseDualAxis: "length (rebaseDualAxis b ys) = length ys"
  by (simp add: rebaseDualAxis_def Let_def)

lemma length_dataPointsOf: "length (dataPointsOf X Y) = length X"
  by (simp add: dataPointsOf_def)

lemmas trace_lengths = length_xValuesOf length_rebaseSingleAxis length_rebaseDualAxis
  length_dataPointsOf length_movingAverage length_timeBasedMovingAverage
  length_makeRelativeToZero

lemma singleAxisGroup_step:
  "singleAxisGroup h cfg st e = st \<or>
   (xValuesOf h cfg (snd e) \<noteq> [] \<and> yValuesOf h (selectedY cfg) (snd e) \<noteq> [] \<and>
    (\<exists>new. fst (singleAxisGroup h cfg st e) = fst st @ new \<and>
       list_all (shaped (xValuesOf h cfg (snd e))
          [length (yValuesOf h (selectedY cfg) (snd e)), length (xValuesOf h cfg (snd e))]) new))"
  by (cases st) (auto simp: singleAxisGroup_def Let_def shaped_def trace_lengths)

lemma singleAxisGroup_skip:
  "yValuesOf h (selectedY cfg) (snd e) = [] \<Longrightarrow> singleAxisGroup h cfg st e = st"
  by (cases st) (simp add: singleAxisGroup_def Let_def)

lemma dualAxisGroup_step:
  "dualAxisGroup h cfg st e = st \<or>
   (xValuesOf h cfg (snd e) \<noteq> [] \<and> yValuesOf h (selectedY cfg) (snd e) \<noteq> [] \<and>
    (\<exists>new. fst (dualAxisGroup h cfg st e) = fst st @ new \<and>
       list_all (shaped (xValuesOf h cfg (snd e))
          [length (yValuesOf h (selectedY cfg) (snd e)),
           length (yValuesOf h (selectedY2 cfg) (snd e))]) new))"
  by (cases st) (auto simp: dualAxisGroup_def Let_def shaped_def trace_lengths)

lemma dualAxisGroup_skip:
  "yValuesOf h (selectedY cfg) (snd e) = [] \<Longrightarrow> dualAxisGroup h cfg st e = st"
  by (cases st) (simp add: dualAxisGroup_def Let_def)

lemma singleAxisUngrouped_shape:
  "list_all (shaped (xValuesOf h cfg rows) [length (yValuesOf h (selectedY cfg) rows)])
     (singleAxisUngrouped h cfg rows)"
  by (simp add: singleAxisUngrouped_def Let_def shaped_def trace_lengths)

lemma dualAxisUngrouped_shape:
  "list_all (shaped (xValuesOf h cfg rows)
       [length (yValuesOf h (selectedY cfg) rows), length (yValuesOf h (selectedY2 cfg) rows)])
     (dualAxisUngrouped h cfg rows)"
  by (simp add: dualAxisUngrouped_def Let_def shaped_def trace_lengths)

lemma foldl_traces_invariant:
  assumes "\<And>st e. e \<in> set es \<Longrightarrow> list_all P (fst st) \<Longrightarrow> list_all P (fst (f st e))"
    and "list_all P (fst st0)"
  shows "list_all P (fst (foldl f st0 es))"
  using assms by (induction es arbitrary: st0) simp_all

lemma pushRow_groupOf:
  "list_all (groupOf rows) groups \<Longrightarrow> r \<in> set rows \<Longrightarrow> list_all (groupOf rows) (pushRow k r groups)"
  by (induction groups) (auto simp: groupOf_def)

lemma addRow_groupOf:
  assumes "addRow g groups r = Inr groups'" "list_all (groupOf rows) groups" "r \<in> set rows"
  shows "list_all (groupOf rows) groups'"
  using assms
  by (auto simp: addRow_def Let_def pushRow_groupOf groupOf_def split: option.splits if_splits)

lemma groupRows_groupOf:
  assumes "groupRows g groups rs = Inr groups'" "list_all (groupOf rows) groups" "set rs \<subseteq> set rows"
  shows "list_all (groupOf rows) groups'"
  using assms
proof (induction rs arbitrary: groups)
  case Nil
  then show ?case by simp
next
  case (Cons r rs)
  from Cons.prems(1) obtain mid where mid: "addRow g groups r = Inr mid"
    and rest: "groupRows g mid rs = Inr groups'"
    by (auto split: sum.splits)
  have "list_all (groupOf rows) mid"
    using addRow_groupOf [OF mid Cons.prems(2)] Cons.prems(3) by simp
  then show ?case using Cons.IH [OF rest] Cons.prems(3) by simp
qed

lemma set_objectEntries: "set (objectEntries obj) = set obj"
  by (auto simp: objectEntries_def)

lemma allCellsNumeric_subset:
  "allCellsNumeric h col rows \<Longrightarrow> set rs \<subseteq> set rows \<Longrightarrow> allCellsNumeric h col rs"
  by (auto simp: allCellsNumeric_def list_all_iff)

lemma shaped_aligned:
  "shaped X lengths t \<Longrightarrow> X \<noteq> [] \<Longrightarrow> \<forall>n\<in>set lengths. n = length X \<Longrightarrow> aligned t"
  by (auto simp: shaped_def aligned_def)

lemma grouped_entries:
  assumes "groupedTraces f g rows = Inr traces"
  obtains groupedData where "traces = fst (foldl f ([], 0) (objectEntries groupedData))"
    and "\<forall>e\<in>set (objectEntries groupedData). groupOf rows e"
proof -
  from assms obtain gd where gd: "groupRows g [] rows = Inr gd"
    and tr: "traces = fst (foldl f ([], 0) (objectEntries gd))"
    by (auto simp: groupedTraces_def split: sum.splits)
  have "list_all (groupOf rows) gd" using groupRows_groupOf [OF gd] by simp
  then have "\<forall>e\<in>set (objectEntries gd). groupOf rows e"
    by (simp add: set_objectEntries list_all_iff)
  with tr show ?thesis using that by blast
qed

lemma single_grouped_property:
  assumes tr: "groupedTraces (singleAxisGroup h cfg) g rows = Inr traces"
    and P: "\<And>e t. groupOf rows e \<Longrightarrow> yValuesOf h (selectedY cfg) (snd e) \<noteq> [] \<Longrightarrow>
        shaped (xValuesOf h cfg (snd e))
          [length (yValuesOf h (selectedY cfg) (snd e)), length (xValuesOf h cfg (snd e))] t \<Longrightarrow> P t"
  shows "list_all P traces"
proof -
  from tr obtain gd where traces: "traces = fst (foldl (singleAxisGroup h cfg) ([], 0) (objectEntries gd))"
    and good: "\<forall>e\<in>set (objectEntries gd). groupOf rows e"
    by (rule grouped_entries)
  show ?thesis
    unfolding traces
  proof (rule foldl_traces_invariant)
    fix st :: "trace list \<times> nat" and e
    assume e: "e \<in> set (objectEntries gd)" and inv: "list_all P (fst st)"
    from singleAxisGroup_step [of h cfg st e]
    show "list_all P (fst (singleAxisGroup h cfg st e))"
    proof
      assume "singleAxisGroup h cfg st e = st"
      then show ?thesis using inv by simp
    next
      assume new: "xValuesOf h cfg (snd e) \<noteq> [] \<and> yValuesOf h (selectedY cfg) (snd e) \<noteq> [] \<and>
        (\<exists>new. fst (singleAxisGroup h cfg st e) = fst st @ new \<and>
           list_all (shaped (xValuesOf h cfg (snd e))
              [length (yValuesOf h (selectedY cfg) (snd e)), length (xValuesOf h cfg (snd e))]) new)"
      then show ?thesis
        using inv P [of e] good e by (auto simp: list_all_iff)
    qed
  qed simp
qed

lemma dual_grouped_property:
  assumes tr: "groupedTraces (dualAxisGroup h cfg) g rows = Inr traces"
    and P: "\<And>e t. groupOf rows e \<Longrightarrow> yValuesOf h (selectedY cfg) (snd e) \<noteq> [] \<Longrightarrow>
        shaped (xValuesOf h cfg (snd e))
          [length (yValuesOf h (selectedY cfg) (snd e)),
           length (yValuesOf h (selectedY2 cfg) (snd e))] t \<Longrightarrow> P t"
  shows "list_all P traces"
proof -
  from tr obtain gd where traces: "traces = fst (foldl (dualAxisGroup h cfg) ([], 0) (objectEntries gd))"
    and good: "\<forall>e\<in>set (objectEntries gd). groupOf rows e"
    by (rule grouped_entries)
  show ?thesis
    unfolding traces
  proof (rule foldl_traces_invariant)
    fix st :: "trace list \<times> nat" and e
    assume e: "e \<in> set (objectEntries gd)" and inv: "list_all P (fst st)"
    from dualAxisGroup_step [of h cfg st e]
    show "list_all P (fst (dualAxisGroup h cfg st e))"
    proof
      assume "dualAxisGroup h cfg st e = st"
      then show ?thesis using inv by simp
    next
      assume new: "xValuesOf h cfg (snd e) \<noteq> [] \<and> yValuesOf h (selectedY cfg) (snd e) \<noteq> [] \<and>
        (\<exists>new. fst (dualAxisGroup h cfg st e) = fst st @ new \<and>
           list_all (shaped (xValuesOf h cfg (snd e))
              [length (yValuesOf h (selectedY cfg) (snd e)),
               length (yValuesOf h (selectedY2 cfg) (snd e))]) new)"
      then show ?thesis
        using inv P [of e] good e by (auto simp: list_all_iff)
    qed
  qed simp
qed

lemma group_lengths:
  assumes "groupOf rows e" "allCellsNumeric h col rows"
  shows "length (yValuesOf h col (snd e)) = length (xValuesOf h cfg (snd e))"
    "xValuesOf h cfg (snd e) \<noteq> []"
proof -
  from assms have "allCellsNumeric h col (snd e)"
    by (auto simp: groupOf_def intro: allCellsNumeric_subset)
  then show "length (yValuesOf h col (snd e)) = length (xValuesOf h cfg (snd e))"
    by (simp add: yValuesOf_numeric length_xValuesOf)
  from assms(1) show "xValuesOf h cfg (snd e) \<noteq> []"
    by (simp add: groupOf_def xValuesOf_def)
qed

text \<open>
  C1 (as amended).  Of the traces \<open>chartData\<close> returns: when every row has a number in
  the selected y column (and, in dual-axis mode, in the second y column), every trace
  has x and y of equal, non-empty length, the values at an index being those of the
  same row (the x and the y values of a set of rows are then both a map over its rows);
  every trace has a non-empty x; in single-axis
  mode with grouping every trace has a non-empty y; and in both grouped modes the round
  for a group whose rows have no number in the selected y column leaves the traces and
  the colour counter as they are.
\<close>

theorem chartData_traces:
  assumes "chartData h cfg rows = Inr traces"
  shows "(allCellsNumeric h (selectedY cfg) rows
          \<and> (chartType cfg = CHART_DUAL_AXIS \<longrightarrow> allCellsNumeric h (selectedY2 cfg) rows)
          \<longrightarrow> list_all aligned traces)
     \<and> list_all (\<lambda>t. trace_x t \<noteq> []) traces
     \<and> (chartType cfg \<noteq> CHART_DUAL_AXIS \<and> useGrouping cfg rows \<noteq> None
          \<longrightarrow> list_all (\<lambda>t. trace_y t \<noteq> []) traces)
     \<and> (\<forall>st e. yValuesOf h (selectedY cfg) (snd e) = [] \<longrightarrow>
            singleAxisGroup h cfg st e = st \<and> dualAxisGroup h cfg st e = st)
     \<and> (\<forall>col rs. allCellsNumeric h col rs \<longrightarrow>
            yValuesOf h col rs = map (\<lambda>r. parseFloat h (getCell r col)) rs
            \<and> xValuesOf h cfg rs = map (\<lambda>r. convertTimestamp h (getCell r (selectedX cfg))) rs)"
proof (cases "rows = []")
  case True
  with assms have "traces = []" by (simp add: chartData_def)
  then show ?thesis
    by (simp add: singleAxisGroup_skip dualAxisGroup_skip yValuesOf_rows xValuesOf_def)
next
  case False
  then have X: "xValuesOf h cfg rows \<noteq> []" by (simp add: xValuesOf_def)
  have whole: "groupOf rows (k, rows)" for k :: string using False by (simp add: groupOf_def)
  consider
      (dual_grouped) g where "chartType cfg = CHART_DUAL_AXIS" "useGrouping cfg rows = Some g"
        "groupedTraces (dualAxisGroup h cfg) g rows = Inr traces"
    | (dual_plain) "chartType cfg = CHART_DUAL_AXIS" "useGrouping cfg rows = None"
        "traces = dualAxisUngrouped h cfg rows"
    | (single_grouped) g where "chartType cfg \<noteq> CHART_DUAL_AXIS" "useGrouping cfg rows = Some g"
        "groupedTraces (singleAxisGroup h cfg) g rows = Inr traces"
    | (single_plain) "chartType cfg \<noteq> CHART_DUAL_AXIS" "useGrouping cfg rows = None"
        "traces = singleAxisUngrouped h cfg rows"
    using assms False by (auto simp: chartData_def split: if_splits option.splits)
  then have main: "(allCellsNumeric h (selectedY cfg) rows
          \<and> (chartType cfg = CHART_DUAL_AXIS \<longrightarrow> allCellsNumeric h (selectedY2 cfg) rows)
          \<longrightarrow> list_all aligned traces)
     \<and> list_all (\<lambda>t. trace_x t \<noteq> []) traces
     \<and> (chartType cfg \<noteq> CHART_DUAL_AXIS \<and> useGrouping cfg rows \<noteq> None
          \<longrightarrow> list_all (\<lambda>t. trace_y t \<noteq> []) traces)"
  proof cases
    case dual_grouped
    have a: "list_all aligned traces"
      if "allCellsNumeric h (selectedY cfg) rows" "allCellsNumeric h (selectedY2 cfg) rows"
      using dual_grouped(3)
    proof (rule dual_grouped_property)
      fix e t assume "groupOf rows e"
        and "shaped (xValuesOf h cfg (snd e))
          [length (yValuesOf h (selectedY cfg) (snd e)),
           length (yValuesOf h (selectedY2 cfg) (snd e))] t"
      then show "aligned t"
        using group_lengths [of rows e h _ cfg] that by (auto intro!: shaped_aligned)
    qed
    have b: "list_all (\<lambda>t. trace_x t \<noteq> []) traces"
      using dual_grouped(3)
    proof (rule dual_grouped_property)
      fix e t assume "groupOf rows e"
        and "shaped (xValuesOf h cfg (snd e))
          [length (yValuesOf h (selectedY cfg) (snd e)),
           length (yValuesOf h (selectedY2 cfg) (snd e))] t"
      then show "trace_x t \<noteq> []"
        by (simp add: shaped_def groupOf_def xValuesOf_def)
    qed
    show ?thesis using a b dual_grouped(1) by simp
  next
    case dual_plain
    note sh = dualAxisUngrouped_shape [of h cfg rows]
    have a: "list_all aligned traces"
      if "allCellsNumeric h (selectedY cfg) rows" "allCellsNumeric h (selectedY2 cfg) rows"
      using sh X that unfolding dual_plain(3) list_all_iff
      by (auto intro!: shaped_aligned simp: yValuesOf_numeric length_xValuesOf)
    have b: "list_all (\<lambda>t. trace_x t \<noteq> []) traces"
      using sh X unfolding dual_plain(3) list_all_iff by (auto simp: shaped_def)
    show ?thesis using a b dual_plain(1) by simp
  next
    case single_grouped
    have a: "list_all aligned traces" if "allCellsNumeric h (selectedY cfg) rows"
      using single_grouped(3)
    proof (rule single_grouped_property)
      fix e t assume "groupOf rows e"
        and "shaped (xValuesOf h cfg (snd e))
          [length (yValuesOf h (selectedY cfg) (snd e)), length (xValuesOf h cfg (snd e))] t"
      then show "aligned t"
        using group_lengths [of rows e h _ cfg] that by (auto intro!: shaped_aligned)
    qed
    have b: "list_all (\<lambda>t. trace_x t \<noteq> []) traces"
      using single_grouped(3)
    proof (rule single_grouped_property)
      fix e t assume "groupOf rows e"
        and "shaped (xValuesOf h cfg (snd e))
          [length (yValuesOf h (selectedY cfg) (snd e)), length (xValuesOf h cfg (snd e))] t"
      then show "trace_x t \<noteq> []"
        by (simp add: shaped_def groupOf_def xValuesOf_def)
    qed
    have c: "list_all (\<lambda>t. trace_y t \<noteq> []) traces"
      using single_grouped(3)
    proof (rule single_grouped_property)
      fix e t assume "groupOf rows e" and "yValuesOf h (selectedY cfg) (snd e) \<noteq> []"
        and "shaped (xValuesOf h cfg (snd e))
          [length (yValuesOf h (selectedY cfg) (snd e)), length (xValuesOf h cfg (snd e))] t"
      then show "trace_y t \<noteq> []"
        by (auto simp: shaped_def groupOf_def xValuesOf_def)
    qed
    show ?thesis using a b c by simp
  next
    case single_plain
    note sh = singleAxisUngrouped_shape [of h cfg rows]
    have a: "list_all aligned traces" if "allCellsNumeric h (selectedY cfg) rows"
      using sh X that unfolding single_plain(3) list_all_iff
      by (auto intro!: shaped_aligned simp: yValuesOf_numeric length_xValuesOf)
    have b: "list_all (\<lambda>t. trace_x t \<noteq> []) traces"
      using sh X unfolding single_plain(3) list_all_iff by (auto simp: shaped_def)
    show ?thesis using a b single_plain(2) by simp
  qed
  then show ?thesis
    by (simp add: singleAxisGroup_skip dualAxisGroup_skip yValuesOf_rows xValuesOf_def)
qed

lemma example_grouping: "useGrouping (exampleConfig\<lparr>selectedY := c\<rparr>) exampleRows = None"
  "useGrouping exampleConfig exampleRows = None"
  by (simp_all add: useGrouping_def exampleConfig_def groupingColumnOf_def toLowerCase_def
      lowerCaseOf_def)

lemma example_x: "xValuesOf plainHost (exampleConfig\<lparr>selectedY := c\<rparr>) exampleRows
     = [ValidDate 1704067200000, ValidDate 1704153600000, ValidDate 1704240000000]"
  by (simp add: xValuesOf_def exampleRows_def exampleConfig_def getCell_def convertTimestamp_def
      isString_def isNaN_def plainHost_def)

lemma example_u: "yValuesOf plainHost ''u'' exampleRows = []"
  by (simp add: yValuesOf_def exampleRows_def getCell_def isNaN_def)

lemma example_numeric: "allCellsNumeric plainHost ''v'' exampleRows"
  "\<not> allCellsNumeric plainHost ''w'' exampleRows"
  by (simp_all add: allCellsNumeric_def exampleRows_def getCell_def plainHost_eval isNaN_def)

lemma example_chart:
  "chartData plainHost exampleConfig exampleRows =
     Inr [\<lparr>trace_x = [ValidDate 1704067200000, ValidDate 1704153600000, ValidDate 1704240000000],
           trace_y = [JNum (Fin 0), JNum (Fin 10), JNum (Fin 20)],
           trace_type = ''scatter'', trace_mode = ''lines+markers'', trace_name = ''v'',
           trace_line = \<lparr>line_color = ''#038357'', line_width = None, line_dash = None\<rparr>,
           trace_marker = Some \<lparr>marker_color = ''#038357'', marker_symbol = None\<rparr>,
           trace_yaxis = None, trace_opacity = None\<rparr>]"
proof -
  have rows: "length exampleRows \<noteq> 0" by (simp add: exampleRows_def)
  have cfg: "CHART_LINE \<noteq> CHART_DUAL_AXIS" "chartType exampleConfig = CHART_LINE"
    "selectedY exampleConfig = ''v''" "relativeToZero exampleConfig" "\<not> showSmooth exampleConfig"
    by (simp_all add: exampleConfig_def CHART_DUAL_AXIS_def CHART_LINE_def)
  have y: "rebaseSingleAxis True [Fin 10, Fin 20, Fin 30] = [Fin 0, Fin 10, Fin 20]"
    by (simp add: rebaseSingleAxis_def isNaN_def js_sub_def)
  show ?thesis
    using rows
    by (simp add: chartData_def example_grouping singleAxisUngrouped_def Let_def cfg
        example_xValues example_yValues y COLOR_PALETTE_def)
qed

lemma chart_types_distinct: "CHART_LINE \<noteq> CHART_DUAL_AXIS"
  by (simp add: CHART_DUAL_AXIS_def CHART_LINE_def)

lemma misaligned_chart:
  "chartData plainHost (exampleConfig\<lparr>selectedY := ''w''\<rparr>) exampleRows =
     Inr [\<lparr>trace_x = [ValidDate 1704067200000, ValidDate 1704153600000, ValidDate 1704240000000],
           trace_y = [JNum (Fin 0), JNum (Fin 1)],
           trace_type = ''scatter'', trace_mode = ''lines+markers'', trace_name = ''w'',
           trace_line = \<lparr>line_color = ''#038357'', line_width = None, line_dash = None\<rparr>,
           trace_marker = Some \<lparr>marker_color = ''#038357'', marker_symbol = None\<rparr>,
           trace_yaxis = None, trace_opacity = None\<rparr>]"
proof -
  have rows: "length exampleRows \<noteq> 0" by (simp add: exampleRows_def)
  have cfg: "chartType (exampleConfig\<lparr>selectedY := ''w''\<rparr>) = CHART_LINE"
    "selectedY (exampleConfig\<lparr>selectedY := ''w''\<rparr>) = ''w''"
    "relativeToZero (exampleConfig\<lparr>selectedY := ''w''\<rparr>)"
    "\<not> showSmooth (exampleConfig\<lparr>selectedY := ''w''\<rparr>)"
    by (simp_all add: exampleConfig_def)
  have y: "rebaseSingleAxis True [Fin (3 / 2), Fin (5 / 2)] = [Fin 0, Fin 1]"
    by (simp add: rebaseSingleAxis_def isNaN_def js_sub_def)
  show ?thesis
    using rows
    by (simp add: chartData_def example_grouping singleAxisUngrouped_def Let_def cfg
        chart_types_distinct example_x example_yValues y COLOR_PALETTE_def)
qed

lemma empty_chart:
  "chartData plainHost (exampleConfig\<lparr>selectedY := ''u''\<rparr>) exampleRows =
     Inr [\<lparr>trace_x = [ValidDate 1704067200000, ValidDate 1704153600000, ValidDate 1704240000000],
           trace_y = [],
           trace_type = ''scatter'', trace_mode = ''lines+markers'', trace_name = ''u'',
           trace_line = \<lparr>line_color = ''#038357'', line_width = None, line_dash = None\<rparr>,
           trace_marker = Some \<lparr>marker_color = ''#038357'', marker_symbol = None\<rparr>,
           trace_yaxis = None, trace_opacity = None\<rparr>]"
proof -
  have rows: "length exampleRows \<noteq> 0" by (simp add: exampleRows_def)
  have cfg: "chartType (exampleConfig\<lparr>selectedY := ''u''\<rparr>) = CHART_LINE"
    "selectedY (exampleConfig\<lparr>selectedY := ''u''\<rparr>) = ''u''"
    "relativeToZero (exampleConfig\<lparr>selectedY := ''u''\<rparr>)"
    "\<not> showSmooth (exampleConfig\<lparr>selectedY := ''u''\<rparr>)"
    by (simp_all add: exampleConfig_def)
  show ?thesis
    using rows
    by (simp add: chartData_def example_grouping singleAxisUngrouped_def Let_def cfg
        chart_types_distinct example_x example_u rebaseSingleAxis_def COLOR_PALETTE_def)
qed

lemma station_grouping: "useGrouping stationConfig stationRows = Some ''Station''"
  by (simp add: useGrouping_def stationConfig_def stationRows_def groupingColumnOf_def
      toLowerCase_def lowerCaseOf_def getCell_def)

lemma station_groups:
  "groupRows ''Station'' [] stationRows
     = Inr [(''A'', take 2 stationRows), (''B'', drop 2 stationRows)]"
  by (simp add: stationRows_def addRow_def cellKey_def prototypeKeys_def Let_def)

lemma station_entries:
  "objectEntries [(''A'', take 2 stationRows), (''B'', drop 2 stationRows)]
     = [(''A'', take 2 stationRows), (''B'', drop 2 stationRows)]"
  by (simp add: objectEntries_def isArrayIndex_def isDigit_def)

lemma station_B: "yValuesOf plainHost (selectedY stationConfig) (drop 2 stationRows) = []"
  by (simp add: yValuesOf_def stationRows_def stationConfig_def getCell_def plainHost_eval isNaN_def)

lemma station_A:
  "singleAxisGroup plainHost stationConfig ([], 0) (''A'', take 2 stationRows) =
     ([\<lparr>trace_x = [ValidDate 1704067200000, ValidDate 1704153600000],
        trace_y = [JNum (Fin 0), JNum (Fin 10)],
        trace_type = ''scatter'', trace_mode = ''lines+markers'', trace_name = ''A - v'',
        trace_line = \<lparr>line_color = ''#038357'', line_width = None, line_dash = None\<rparr>,
        trace_marker = Some \<lparr>marker_color = ''#038357'', marker_symbol = None\<rparr>,
        trace_yaxis = None, trace_opacity = None\<rparr>], 1)"
proof -
  have x: "xValuesOf plainHost stationConfig (take 2 stationRows)
      = [ValidDate 1704067200000, ValidDate 1704153600000]"
    by (simp add: xValuesOf_def stationRows_def stationConfig_def getCell_def convertTimestamp_def
        isString_def isNaN_def plainHost_def)
  have y: "yValuesOf plainHost ''v'' (take 2 stationRows) = [Fin 10, Fin 20]"
    by (simp add: yValuesOf_def stationRows_def getCell_def plainHost_eval isNaN_def)
  have cfg: "chartType stationConfig = CHART_LINE" "selectedY stationConfig = ''v''"
    "relativeToZero stationConfig" "\<not> showSmooth stationConfig"
    by (simp_all add: stationConfig_def)
  have r: "rebaseSingleAxis True [Fin 10, Fin 20] = [Fin 0, Fin 10]"
    by (simp add: rebaseSingleAxis_def isNaN_def js_sub_def)
  show ?thesis
    by (simp add: singleAxisGroup_def Let_def x y cfg r paletteColor_def COLOR_PALETTE_def)
qed

lemma station_chart:
  "chartData plainHost stationConfig stationRows =
     Inr [\<lparr>trace_x = [ValidDate 1704067200000, ValidDate 1704153600000],
           trace_y = [JNum (Fin 0), JNum (Fin 10)],
           trace_type = ''scatter'', trace_mode = ''lines+markers'', trace_name = ''A - v'',
           trace_line = \<lparr>line_color = ''#038357'', line_width = None, line_dash = None\<rparr>,
           trace_marker = Some \<lparr>marker_color = ''#038357'', marker_symbol = None\<rparr>,
           trace_yaxis = None, trace_opacity = None\<rparr>]"
proof -
  have rows: "length stationRows \<noteq> 0" by (simp add: stationRows_def)
  have single: "chartType stationConfig \<noteq> CHART_DUAL_AXIS"
    using chart_types_distinct by (simp add: stationConfig_def)
  have round_B: "singleAxisGroup plainHost stationConfig st (''B'', drop 2 stationRows) = st" for st
    using station_B by (simp add: singleAxisGroup_skip)
  show ?thesis
    using rows single
    by (simp add: chartData_def station_grouping groupedTraces_def station_groups
        station_entries round_B station_A)
qed

theorem chartData_traces_witness:
  "chartData plainHost exampleConfig exampleRows =
     Inr [\<lparr>trace_x = [ValidDate 1704067200000, ValidDate 1704153600000, ValidDate 1704240000000],
           trace_y = [JNum (Fin 0), JNum (Fin 10), JNum (Fin 20)],
           trace_type = ''scatter'', trace_mode = ''lines+markers'', trace_name = ''v'',
           trace_line = \<lparr>line_color = ''#038357'', line_width = None, line_dash = None\<rparr>,
           trace_marker = Some \<lparr>marker_color = ''#038357'', marker_symbol = None\<rparr>,
           trace_yaxis = None, trace_opacity = None\<rparr>]
   \<and> allCellsNumeric plainHost (selectedY exampleConfig) exampleRows
   \<and> chartType exampleConfig \<noteq> CHART_DUAL_AXIS
   \<and> aligned \<lparr>trace_x = [ValidDate 1704067200000, ValidDate 1704153600000, ValidDate 1704240000000],
           trace_y = [JNum (Fin 0), JNum (Fin 10), JNum (Fin 20)],
           trace_type = ''scatter'', trace_mode = ''lines+markers'', trace_name = ''v'',
           trace_line = \<lparr>line_color = ''#038357'', line_width = None, line_dash = None\<rparr>,
           trace_marker = Some \<lparr>marker_color = ''#038357'', marker_symbol = None\<rparr>,
           trace_yaxis = None, trace_opacity = None\<rparr>
   \<and> yValuesOf plainHost (selectedY exampleConfig) exampleRows
       = map (\<lambda>r. parseFloat plainHost (getCell r (selectedY exampleConfig))) exampleRows
   \<and> xValuesOf plainHost exampleConfig exampleRows
       = map (\<lambda>r. convertTimestamp plainHost (getCell r (selectedX exampleConfig))) exampleRows
   \<and> useGrouping stationConfig stationRows = Some ''Station''
   \<and> yValuesOf plainHost (selectedY stationConfig) (drop 2 stationRows) = []
   \<and> singleAxisGroup plainHost stationConfig
         (singleAxisGroup plainHost stationConfig ([], 0) (''A'', take 2 stationRows))
         (''B'', drop 2 stationRows)
       = singleAxisGroup plainHost stationConfig ([], 0) (''A'', take 2 stationRows)
   \<and> chartData plainHost stationConfig stationRows =
     Inr [\<lparr>trace_x = [ValidDate 1704067200000, ValidDate 1704153600000],
           trace_y = [JNum (Fin 0), JNum (Fin 10)],
           trace_type = ''scatter'', trace_mode = ''lines+markers'', trace_name = ''A - v'',
           trace_line = \<lparr>line_color = ''#038357'', line_width = None, line_dash = None\<rparr>,
           trace_marker = Some \<lparr>marker_color = ''#038357'', marker_symbol = None\<rparr>,
           trace_yaxis = None, trace_opacity = None\<rparr>]"
proof -
  have num: "allCellsNumeric plainHost (selectedY exampleConfig) exampleRows"
    using example_numeric(1) by (simp add: exampleConfig_def)
  have single: "chartType exampleConfig \<noteq> CHART_DUAL_AXIS"
    using chart_types_distinct by (simp add: exampleConfig_def)
  note laws = chartData_traces [OF example_chart]
  from laws num single
  have al: "list_all aligned
      [\<lparr>trace_x = [ValidDate 1704067200000, ValidDate 1704153600000, ValidDate 1704240000000],
           trace_y = [JNum (Fin 0), JNum (Fin 10), JNum (Fin 20)],
           trace_type = ''scatter'', trace_mode = ''lines+markers'', trace_name = ''v'',
           trace_line = \<lparr>line_color = ''#038357'', line_width = None, line_dash = None\<rparr>,
           trace_marker = Some \<lparr>marker_color = ''#038357'', marker_symbol = None\<rparr>,
           trace_yaxis = None, trace_opacity = None\<rparr>]"
    by blast
  note station = chartData_traces [OF station_chart]
  have "\<forall>st e. yValuesOf plainHost (selectedY stationConfig) (snd e) = [] \<longrightarrow>
      singleAxisGroup plainHost stationConfig st e = st
      \<and> dualAxisGroup plainHost stationConfig st e = st"
    by (rule station [THEN conjunct2, THEN conjunct2, THEN conjunct2, THEN conjunct1])
  then have "yValuesOf plainHost (selectedY stationConfig) (snd (''B'', drop 2 stationRows)) = []
      \<longrightarrow> singleAxisGroup plainHost stationConfig
            (singleAxisGroup plainHost stationConfig ([], 0) (''A'', take 2 stationRows))
            (''B'', drop 2 stationRows)
          = singleAxisGroup plainHost stationConfig ([], 0) (''A'', take 2 stationRows)"
    by blast
  with station_B
  have skip: "singleAxisGroup plainHost stationConfig
        (singleAxisGroup plainHost stationConfig ([], 0) (''A'', take 2 stationRows))
        (''B'', drop 2 stationRows)
      = singleAxisGroup plainHost stationConfig ([], 0) (''A'', take 2 stationRows)"
    by simp
  from laws num
  have rowwise: "yValuesOf plainHost (selectedY exampleConfig) exampleRows
        = map (\<lambda>r. parseFloat plainHost (getCell r (selectedY exampleConfig))) exampleRows
      \<and> xValuesOf plainHost exampleConfig exampleRows
        = map (\<lambda>r. convertTimestamp plainHost (getCell r (selectedX exampleConfig))) exampleRows"
    by blast
  show ?thesis
    using example_chart num single al station_grouping station_B skip station_chart rowwise
    by simp
qed

text \<open>
  C1 as stated speaks of every trace in every mode.  The y values are filtered of \<open>NaN\<close>
  and the x values are not: with the column \<open>w\<close> selected, whose second cell is not a
  number, the one trace has three x values and two y values.  Without grouping no test
  guards the trace: with a column selected that no row has, the trace is returned with
  an empty y.
\<close>

theorem chartData_alignment_counterexample:
  "chartData plainHost (exampleConfig\<lparr>selectedY := ''w''\<rparr>) exampleRows =
     Inr [\<lparr>trace_x = [ValidDate 1704067200000, ValidDate 1704153600000, ValidDate 1704240000000],
           trace_y = [JNum (Fin 0), JNum (Fin 1)],
           trace_type = ''scatter'', trace_mode = ''lines+markers'', trace_name = ''w'',
           trace_line = \<lparr>line_color = ''#038357'', line_width = None, line_dash = None\<rparr>,
           trace_marker = Some \<lparr>marker_color = ''#038357'', marker_symbol = None\<rparr>,
           trace_yaxis = None, trace_opacity = None\<rparr>]
   \<and> length [ValidDate 1704067200000, ValidDate 1704153600000, ValidDate 1704240000000]
       \<noteq> length [JNum (Fin 0), JNum (Fin 1)]
   \<and> chartData plainHost (exampleConfig\<lparr>selectedY := ''u''\<rparr>) exampleRows =
     Inr [\<lparr>trace_x = [ValidDate 1704067200000, ValidDate 1704153600000, ValidDate 1704240000000],
           trace_y = [],
           trace_type = ''scatter'', trace_mode = ''lines+markers'', trace_name = ''u'',
           trace_line = \<lparr>line_color = ''#038357'', line_width = None, line_dash = None\<rparr>,
           trace_marker = Some \<lparr>marker_color = ''#038357'', marker_symbol = None\<rparr>,
           trace_yaxis = None, trace_opacity = None\<rparr>]"
  unfolding misaligned_chart empty_chart by simp

end
